theory Spec2Isabelle
  imports Main
begin

section \<open>Registry schema and migration 0002\<close>

text \<open>
  Migration 0001 (src-tauri/migrations/0001_init.sql) creates the table
  \<^verbatim>\<open>games(id, title, engine_type, path, runtime_version, created_at, updated_at)\<close>.
  TEXT columns are strings, INTEGER columns are integers, and a column without
  NOT NULL holds an optional value (\<open>None\<close> is SQL NULL). The primary key column
  \<^verbatim>\<open>id\<close> is called \<open>row_id\<close> here, since \<open>id\<close> is the identity function of HOL.
\<close>

record game_row_v1 =
  row_id :: string
  title :: string
  engine_type :: string
  path :: string
  runtime_version :: "string option"
  created_at :: int
  updated_at :: int

text \<open>
  The row after migration 0002: the same columns and the nullable TEXT column
  \<^verbatim>\<open>profile_key\<close>.
\<close>

record game_row = game_row_v1 +
  profile_key :: "string option"

text \<open>
  \<^verbatim>\<open>ALTER TABLE games ADD COLUMN profile_key TEXT;\<close>
  The column has no default, so every row that is already in the table reads NULL in it.
\<close>

definition add_column_profile_key :: "game_row_v1 \<Rightarrow> game_row" where
  "add_column_profile_key r =
     \<lparr> row_id = row_id r, title = title r, engine_type = engine_type r, path = path r,
       runtime_version = runtime_version r, created_at = created_at r,
       updated_at = updated_at r, profile_key = None \<rparr>"

text \<open>
  \<^verbatim>\<open>UPDATE games SET profile_key = id WHERE profile_key IS NULL OR profile_key = '';\<close>
  on one row.
\<close>

definition backfill_profile_key :: "game_row \<Rightarrow> game_row" where
  "backfill_profile_key r =
     (if profile_key r = None \<or> profile_key r = Some [] then r\<lparr>profile_key := Some (row_id r)\<rparr>
      else r)"

text \<open>
  The whole migration on the table, a list of rows in storage order. The final
  \<^verbatim>\<open>CREATE INDEX IF NOT EXISTS idx_games_profile_key\<close> changes no row.
\<close>

definition migration_0002 :: "game_row_v1 list \<Rightarrow> game_row list" where
  "migration_0002 rows = map backfill_profile_key (map add_column_profile_key rows)"

text \<open>The columns of migration 0001 of a migrated row.\<close>

definition old_columns :: "game_row \<Rightarrow> game_row_v1" where
  "old_columns r =
     \<lparr> row_id = row_id r, title = title r, engine_type = engine_type r, path = path r,
       runtime_version = runtime_version r, created_at = created_at r,
       updated_at = updated_at r \<rparr>"


section \<open>JavaScript values and strings\<close>

text \<open>
  A \<open>string\<close> stands for a JavaScript string, a \<open>char\<close> for one code unit below 256.
  The code units above 255 (the other Unicode spaces among them) have no counterpart here.
\<close>

text \<open>
  The white space and line terminators that \<^verbatim>\<open>String.prototype.trim\<close> removes, as far
  as they are below 256: TAB, LF, VT, FF, CR, SPACE and NO-BREAK SPACE.
\<close>

definition js_whitespace :: "char \<Rightarrow> bool" where
  "js_whitespace c = (of_char c \<in> {9, 10, 11, 12, 13, 32, 160 :: nat})"

definition trim :: "string \<Rightarrow> string" where
  "trim s = rev (dropWhile js_whitespace (rev (dropWhile js_whitespace s)))"

fun cons_first :: "char \<Rightarrow> string list \<Rightarrow> string list" where
  "cons_first c [] = [[c]]"
| "cons_first c (l # ls) = (c # l) # ls"

text \<open>
  \<^verbatim>\<open>s.split(/\r?\n/)\<close>: the pieces of \<open>s\<close> between the line breaks, a line break being
  LF or CR LF. A string with no line break, the empty string too, is one piece.
\<close>

fun split_lines :: "string \<Rightarrow> string list" where
  "split_lines [] = [[]]"
| "split_lines [c] = (if c = CHR 0x0A then [[], []] else [[c]])"
| "split_lines (c # d # cs) =
     (if c = CHR 0x0D \<and> d = CHR 0x0A then [] # split_lines cs
      else if c = CHR 0x0A then [] # split_lines (d # cs)
      else cons_first c (split_lines (d # cs)))"

text \<open>\<^verbatim>\<open>xs.join(sep)\<close>\<close>

fun join :: "string \<Rightarrow> string list \<Rightarrow> string" where
  "join sep [] = []"
| "join sep [x] = x"
| "join sep (x # y # ys) = x @ sep @ join sep (y # ys)"

text \<open>
  What \<^verbatim>\<open>JSON.stringify(v)\<close> and \<^verbatim>\<open>String(v)\<close> do on an object \<open>v\<close>. Both depend on the
  object's properties and methods (\<^verbatim>\<open>toJSON\<close>, \<^verbatim>\<open>toString\<close>, cyclic references), so an
  object carries the two outcomes with it. \<^verbatim>\<open>JSON.stringify\<close> can throw, return a text,
  or return \<^verbatim>\<open>undefined\<close>; \<^verbatim>\<open>String\<close> can throw or return a text.
\<close>

datatype stringify_result = StringifyThrows | StringifyUndefined | StringifyText string

datatype to_string_result = ToStringThrows | ToStringText string

text \<open>
  The values of type \<^verbatim>\<open>unknown\<close> that a \<^verbatim>\<open>catch\<close> clause can receive.
  \<^item> \<open>JNumber t\<close> is a number whose JSON text is \<open>t\<close> (\<^verbatim>\<open>null\<close> for NaN and the infinities);
  \<^item> \<open>JBigInt t\<close> is a bigint with the decimal digits \<open>t\<close>;
  \<^item> \<open>JFunction\<close> is a function without a \<^verbatim>\<open>toJSON\<close> method;
  \<^item> \<open>JError m\<close> is an instance of \<^verbatim>\<open>Error\<close> whose \<^verbatim>\<open>message\<close> property holds \<open>m\<close>;
  \<^item> \<open>JObject m j t\<close> is any other object: \<open>m\<close> is the value of its \<^verbatim>\<open>message\<close> property
    (\<open>JUndefined\<close> when it has none), \<open>j\<close> and \<open>t\<close> are the outcomes of \<^verbatim>\<open>JSON.stringify\<close>
    and \<^verbatim>\<open>String\<close> on it. Reading the property is taken not to throw.
\<close>

datatype jsval =
    JString string
  | JUndefined
  | JNull
  | JBoolean bool
  | JNumber string
  | JBigInt string
  | JSymbol
  | JFunction
  | JError jsval
  | JObject jsval stringify_result to_string_result

datatype js_exn = TypeError

text \<open>A promise that has settled: resolved with a value or rejected with a reason.\<close>

datatype 'a settled = Resolved 'a | Rejected jsval

text \<open>
  The second argument of \<^verbatim>\<open>invoke\<close>, \<^verbatim>\<open>args?: Record<string, unknown>\<close>: absent, or
  the properties of an object literal in the order they are written.
\<close>

type_synonym invoke_args = "(string \<times> jsval) list option"

section \<open>src/lib/tauri.ts\<close>

text \<open>
  \<^verbatim>\<open>type InvokeResult<T> = { ok: true; data: T } | { ok: false; error: string }\<close>:
  \<open>Success data\<close> is the first form, \<open>Failure error\<close> the second.
  The field \<^verbatim>\<open>error\<close> is declared a string; at run time it holds whatever
  \<^verbatim>\<open>formatInvokeError\<close> returned, so it is a \<open>jsval\<close> here.
\<close>

datatype 'a InvokeResult = Success 'a | Failure jsval

text \<open>\<^verbatim>\<open>typeof message === "string" && message.trim().length > 0\<close>\<close>

fun nonblank_string :: "jsval \<Rightarrow> bool" where
  "nonblank_string (JString m) = (length (trim m) > 0)"
| "nonblank_string _ = False"

text \<open>
  \<^verbatim>\<open>try { return JSON.stringify(err); } catch { return String(err); }\<close>
  given the outcomes of the two calls on \<open>err\<close>. A value that \<^verbatim>\<open>JSON.stringify\<close> returns
  is returned as it is, \<^verbatim>\<open>undefined\<close> too; \<^verbatim>\<open>String(err)\<close> runs in the \<^verbatim>\<open>catch\<close> block, so
  what it throws leaves the function.
\<close>

fun stringify_or_String :: "stringify_result \<Rightarrow> to_string_result \<Rightarrow> js_exn + jsval" where
  "stringify_or_String (StringifyText t) _ = Inr (JString t)"
| "stringify_or_String StringifyUndefined _ = Inr JUndefined"
| "stringify_or_String StringifyThrows (ToStringText t) = Inr (JString t)"
| "stringify_or_String StringifyThrows ToStringThrows = Inl TypeError"

text \<open>
  \<^verbatim>\<open>function formatInvokeError(err: unknown): string\<close>. The clauses follow the source:
  a string is returned; an instance of \<^verbatim>\<open>Error\<close> gives its \<^verbatim>\<open>message\<close>; another object
  (\<^verbatim>\<open>err && typeof err === "object"\<close>) gives its \<^verbatim>\<open>message\<close> when that is a string that is
  not blank; every other value reaches \<^verbatim>\<open>return JSON.stringify(err)\<close>. On the values
  that are not objects \<^verbatim>\<open>JSON.stringify\<close> is fixed by the language: it returns the text
  \<^verbatim>\<open>null\<close>, \<^verbatim>\<open>true\<close> or \<^verbatim>\<open>false\<close> or the number's text, it returns \<^verbatim>\<open>undefined\<close> (and
  throws nothing) on \<^verbatim>\<open>undefined\<close>, a symbol and a function, and it throws on a bigint,
  where \<^verbatim>\<open>String\<close> then gives the digits.
\<close>

fun formatInvokeError :: "jsval \<Rightarrow> js_exn + jsval" where
  "formatInvokeError (JString s) = Inr (JString s)"
| "formatInvokeError (JError m) = Inr m"
| "formatInvokeError (JObject m j t) =
     (if nonblank_string m then Inr m else stringify_or_String j t)"
| "formatInvokeError JUndefined = Inr JUndefined"
| "formatInvokeError JNull = Inr (JString ''null'')"
| "formatInvokeError (JBoolean b) = Inr (JString (if b then ''true'' else ''false''))"
| "formatInvokeError (JNumber t) = Inr (JString t)"
| "formatInvokeError (JBigInt t) = stringify_or_String StringifyThrows (ToStringText t)"
| "formatInvokeError JSymbol = Inr JUndefined"
| "formatInvokeError JFunction = Inr JUndefined"

text \<open>
  \<^verbatim>\<open>invokeResult<T>(command, args)\<close>, over the \<^verbatim>\<open>invoke\<close> of \<^verbatim>\<open>@tauri-apps/api/core\<close>,
  which is a parameter: what the backend answers to a command. \<open>Inl\<close> is an exception
  that leaves \<^verbatim>\<open>invokeResult\<close>. The line written to the console is not part of the model.
\<close>

definition invokeResult ::
  "(string \<Rightarrow> invoke_args \<Rightarrow> 'a settled) \<Rightarrow> string \<Rightarrow> invoke_args \<Rightarrow> js_exn + 'a InvokeResult" where
  "invokeResult invoke command args =
     (case invoke command args of
        Resolved data \<Rightarrow> Inr (Success data)
      | Rejected err \<Rightarrow>
          (case formatInvokeError err of
             Inl e \<Rightarrow> Inl e
           | Inr text \<Rightarrow> Inr (Failure text)))"

text \<open>\<^verbatim>\<open>safeInvoke<T>(command, args): Promise<T | null>\<close>; \<open>None\<close> is \<^verbatim>\<open>null\<close>.\<close>

definition safeInvoke ::
  "(string \<Rightarrow> invoke_args \<Rightarrow> 'a settled) \<Rightarrow> string \<Rightarrow> invoke_args \<Rightarrow> js_exn + 'a option" where
  "safeInvoke invoke command args =
     (case invoke command args of
        Resolved data \<Rightarrow> Inr (Some data)
      | Rejected err \<Rightarrow> Inr None)"


section \<open>src/App.vue: launching a game\<close>

text \<open>
  \<^verbatim>\<open>type GameEntry = { id; title; engineType; version?; path; pathValid }\<close>.
  The engine type is one of the strings \<^verbatim>\<open>rmmz\<close>, \<^verbatim>\<open>rmmv\<close> and \<^verbatim>\<open>unknown\<close>.
\<close>

record GameEntry =
  entry_id :: string
  entry_title :: string
  entry_engineType :: string
  entry_version :: "string option"
  entry_path :: string
  entry_pathValid :: bool

text \<open>
  The labels that \<^verbatim>\<open>launchGame\<close> shows in the status bar. The source builds them as
  Chinese template strings; a label is kept as the template and the value it interpolates:
  \<^item> \<open>LaunchFailedInvalidPath\<close>: "launch failed: the game path is invalid";
  \<^item> \<open>Launching t\<close>: "launching: t...";
  \<^item> \<open>LaunchFailedWith e\<close>: "launch failed: e", with the error of the failed command;
  \<^item> \<open>Launched p\<close>: "launched (PID p)".
  Building a label converts the interpolated value to a string, which can throw; see
  \<open>interpolation_throws\<close> below.
\<close>

datatype status_label =
    LaunchFailedInvalidPath
  | Launching string
  | LaunchFailedWith jsval
  | Launched int

text \<open>\<^verbatim>\<open>type TaskStatus = { label: string; progress: number }\<close>\<close>

record TaskStatus =
  label :: status_label
  progress :: int

text \<open>
  The refs of the component that \<^verbatim>\<open>launchGame\<close> reads or writes: \<^verbatim>\<open>games\<close> and
  \<^verbatim>\<open>currentTask\<close>, with \<^verbatim>\<open>selectedGameId\<close>. \<open>issued\<close> is not a ref: it records, in order,
  the commands sent to the backend, so that "no command is sent" can be stated.
\<close>

record app_state =
  games :: "GameEntry list"
  selectedGameId :: string
  currentTask :: "TaskStatus option"
  issued :: "(string \<times> invoke_args) list"

text \<open>
  \<^verbatim>\<open>setStatus(label, progress = 0)\<close> stores the progress clamped to 0..100. Every call
  passes the literal 0 or 100, so the progress is an integer.
\<close>

definition setStatus :: "status_label \<Rightarrow> int \<Rightarrow> app_state \<Rightarrow> app_state" where
  "setStatus l p s = s\<lparr>currentTask := Some \<lparr>label = l, progress = max 0 (min 100 p)\<rparr>\<rparr>"

text \<open>
  Whether the template string \<^verbatim>\<open>`...${v}`\<close> throws a TypeError instead of giving a
  text: it does on a symbol, on an object whose conversion to a string throws, and on an
  \<^verbatim>\<open>Error\<close> whose message does (\<^verbatim>\<open>Error.prototype.toString\<close> converts the message).
\<close>

fun interpolation_throws :: "jsval \<Rightarrow> bool" where
  "interpolation_throws JSymbol = True"
| "interpolation_throws (JObject m j ToStringThrows) = True"
| "interpolation_throws (JObject m j (ToStringText t)) = False"
| "interpolation_throws (JError m) = interpolation_throws m"
| "interpolation_throws (JString t) = False"
| "interpolation_throws JUndefined = False"
| "interpolation_throws JNull = False"
| "interpolation_throws (JBoolean b) = False"
| "interpolation_throws (JNumber t) = False"
| "interpolation_throws (JBigInt t) = False"
| "interpolation_throws JFunction = False"

text \<open>
  \<^verbatim>\<open>async function launchGame(gameId: string)\<close>. The backend's answer to
  \<^verbatim>\<open>launch_game\<close> is \<^verbatim>\<open>{ pid: number }\<close>, here the pid. The result is the exception that
  leaves the function, if any, and the state it leaves behind.
\<close>

definition launchGame ::
  "(string \<Rightarrow> invoke_args \<Rightarrow> int settled) \<Rightarrow> string \<Rightarrow> app_state \<Rightarrow> js_exn option \<times> app_state" where
  "launchGame invoke gameId s =
     (case find (\<lambda>g. entry_id g = gameId) (games s) of
        None \<Rightarrow> (None, s)
      | Some game \<Rightarrow>
          if \<not> entry_pathValid game then (None, setStatus LaunchFailedInvalidPath 0 s)
          else
            let s1 = setStatus (Launching (entry_title game)) 0 s;
                args = Some [(''gameId'', JString gameId)];
                s2 = s1\<lparr>issued := issued s1 @ [(''launch_game'', args)]\<rparr>
            in (case invokeResult invoke ''launch_game'' args of
                  Inl e \<Rightarrow> (Some e, s2)
                | Inr (Failure err) \<Rightarrow>
                    if interpolation_throws err then (Some TypeError, s2)
                    else (None, setStatus (LaunchFailedWith err) 0 s2)
                | Inr (Success pid) \<Rightarrow> (None, setStatus (Launched pid) 100 s2)))"

section \<open>The game settings dialog: loading the launch configuration\<close>

text \<open>
  The two versions of the dialog (src/unnamed/part_009 and part_010) have the same
  \<^verbatim>\<open>loadLaunchConfig\<close> and \<^verbatim>\<open>saveLaunchConfig\<close>.
  The answer to \<^verbatim>\<open>get_game_launch_config\<close> is declared
  \<^verbatim>\<open>{ args: string[]; sandboxHome: boolean }\<close>, but nothing checks what the backend
  sends: the answer is an object in which either member may be missing (\<open>None\<close>; reading
  it gives \<^verbatim>\<open>undefined\<close>), or it is \<^verbatim>\<open>null\<close> (the \<open>None\<close> of the answer itself).
\<close>

record launch_config_data =
  data_args :: "string list option"
  data_sandboxHome :: "bool option"

text \<open>
  The refs of the dialog that the two functions read or write:
  \<^verbatim>\<open>const launchArgsText = ref("")\<close> and \<^verbatim>\<open>const sandboxHome = ref(true)\<close>. The second
  holds what is assigned to it, \<^verbatim>\<open>undefined\<close> (\<open>None\<close>) too.
\<close>

record dialog_state =
  launchArgsText :: string
  sandboxHome :: "bool option"

definition initial_dialog_state :: dialog_state where
  "initial_dialog_state = \<lparr>launchArgsText = [], sandboxHome = Some True\<rparr>"

text \<open>
  \<^verbatim>\<open>async function loadLaunchConfig(gameId: string)\<close>. \<open>Inl\<close> is an exception that leaves
  the function before any ref is assigned, so the refs stay as they were: one thrown by
  \<^verbatim>\<open>invokeResult\<close>, or the TypeError of \<^verbatim>\<open>res.data.sandboxHome\<close> on the answer \<^verbatim>\<open>null\<close>.
  \<^verbatim>\<open>sandboxHome.value = res.data.sandboxHome\<close> has no default;
  \<^verbatim>\<open>res.data.args ?? []\<close> has one.
\<close>

definition loadLaunchConfig ::
  "(string \<Rightarrow> invoke_args \<Rightarrow> launch_config_data option settled) \<Rightarrow> string \<Rightarrow>
   dialog_state \<Rightarrow> js_exn + dialog_state" where
  "loadLaunchConfig invoke gameId s =
     (case invokeResult invoke ''get_game_launch_config'' (Some [(''gameId'', JString gameId)]) of
        Inl e \<Rightarrow> Inl e
      | Inr (Failure err) \<Rightarrow> Inr (s\<lparr>launchArgsText := [], sandboxHome := Some True\<rparr>)
      | Inr (Success None) \<Rightarrow> Inl TypeError
      | Inr (Success (Some data)) \<Rightarrow>
          Inr (s\<lparr>sandboxHome := data_sandboxHome data,
                 launchArgsText :=
                   join [CHR 0x0A] (case data_args data of None \<Rightarrow> [] | Some a \<Rightarrow> a)\<rparr>))"

text \<open>
  The argument list that \<^verbatim>\<open>saveLaunchConfig\<close> sends for the text in the dialog:
  \<^verbatim>\<open>launchArgsText.value.split(/\r?\n/).map((s) => s.trim()).filter((s) => s.length > 0)\<close>.
\<close>

definition launch_args :: "string \<Rightarrow> string list" where
  "launch_args text = filter (\<lambda>s. length s > 0) (map trim (split_lines text))"

section \<open>src/hooks/useGames.ts\<close>

text \<open>\<^verbatim>\<open>interface GameDto\<close> (src/types/engine.ts); the times are Unix milliseconds.\<close>

record GameDto =
  dto_id :: string
  dto_title :: string
  dto_engineType :: string
  dto_path :: string
  dto_pathValid :: bool
  dto_runtimeVersion :: "string option"
  dto_coverPath :: "string option"
  dto_createdAt :: int
  dto_lastPlayedAt :: "int option"

text \<open>\<^verbatim>\<open>interface UpdateGameInput\<close>\<close>

record UpdateGameInput =
  upd_title :: "string option"
  upd_engineType :: "string option"
  upd_path :: "string option"
  upd_runtimeVersion :: "string option"

text \<open>
  The text stored in the \<^verbatim>\<open>error\<close> ref by a \<^verbatim>\<open>catch\<close> clause:
  \<^verbatim>\<open>e instanceof Error ? e.message : <a fixed Chinese text>\<close>. \<open>UpdateFailedText\<close> is
  "updating the game failed", \<open>DeleteFailedText\<close> is "deleting the game failed".
\<close>

datatype error_text = Message jsval | UpdateFailedText | DeleteFailedText

fun message_or :: "jsval \<Rightarrow> error_text \<Rightarrow> error_text" where
  "message_or (JError m) d = Message m"
| "message_or _ d = d"

text \<open>The refs of the composable.\<close>

record games_store =
  store_games :: "GameDto list"
  loading :: bool
  error :: "error_text option"

text \<open>\<^verbatim>\<open>xs.findIndex(p)\<close>: the first index whose element satisfies \<open>p\<close>; \<open>None\<close> is -1.\<close>

fun findIndex :: "('a \<Rightarrow> bool) \<Rightarrow> 'a list \<Rightarrow> nat option" where
  "findIndex p [] = None"
| "findIndex p (x # xs) =
     (if p x then Some 0 else (case findIndex p xs of None \<Rightarrow> None | Some i \<Rightarrow> Some (Suc i)))"

text \<open>
  \<^verbatim>\<open>async function handleUpdateGame(id, input): Promise<boolean>\<close>. The parameter
  \<open>updateGame\<close> is \<^verbatim>\<open>updateGame\<close> of src/lib/api.ts, which sends \<^verbatim>\<open>update_game\<close> and
  rethrows what the command rejects with. The \<^verbatim>\<open>finally\<close> block clears \<^verbatim>\<open>loading\<close>.
\<close>

definition handleUpdateGame ::
  "(string \<Rightarrow> UpdateGameInput \<Rightarrow> GameDto settled) \<Rightarrow> string \<Rightarrow> UpdateGameInput \<Rightarrow>
   games_store \<Rightarrow> bool \<times> games_store" where
  "handleUpdateGame updateGame ident input s =
     (let s1 = s\<lparr>loading := True, error := None\<rparr> in
      case updateGame ident input of
        Resolved updatedGame \<Rightarrow>
          (let s2 = (case findIndex (\<lambda>g. dto_id g = ident) (store_games s1) of
                       None \<Rightarrow> s1
                     | Some index \<Rightarrow>
                         s1\<lparr>store_games := (store_games s1)[index := updatedGame]\<rparr>)
           in (True, s2\<lparr>loading := False\<rparr>))
      | Rejected e \<Rightarrow>
          (False, s1\<lparr>error := Some (message_or e UpdateFailedText), loading := False\<rparr>))"

text \<open>
  \<^verbatim>\<open>async function handleDeleteGame(id): Promise<boolean>\<close>, over \<^verbatim>\<open>deleteGame\<close> of
  src/lib/api.ts, which sends \<^verbatim>\<open>delete_game\<close>.
\<close>

definition handleDeleteGame ::
  "(string \<Rightarrow> unit settled) \<Rightarrow> string \<Rightarrow> games_store \<Rightarrow> bool \<times> games_store" where
  "handleDeleteGame deleteGame ident s =
     (let s1 = s\<lparr>loading := True, error := None\<rparr> in
      case deleteGame ident of
        Resolved _ \<Rightarrow>
          (True, s1\<lparr>store_games := filter (\<lambda>g. dto_id g \<noteq> ident) (store_games s1),
                     loading := False\<rparr>)
      | Rejected e \<Rightarrow>
          (False, s1\<lparr>error := Some (message_or e DeleteFailedText), loading := False\<rparr>))"

section \<open>src/types/engine.ts and src/constants/engines.ts: engine types\<close>

text \<open>\<^verbatim>\<open>export enum EngineType\<close>, with the string value of each member.\<close>

datatype EngineType = RpgMakerVX | RpgMakerVXAce | RpgMakerMV | RpgMakerMZ | NWjs | RenPy | Other

fun EngineType_value :: "EngineType \<Rightarrow> string" where
  "EngineType_value RpgMakerVX = ''rpgmakervx''"
| "EngineType_value RpgMakerVXAce = ''rpgmakervxace''"
| "EngineType_value RpgMakerMV = ''rpgmakermv''"
| "EngineType_value RpgMakerMZ = ''rpgmakermz''"
| "EngineType_value NWjs = ''nwjs''"
| "EngineType_value RenPy = ''renpy''"
| "EngineType_value Other = ''other''"

text \<open>
  \<^verbatim>\<open>ENGINE_DISPLAY_NAMES\<close>, \<^verbatim>\<open>SUPPORTED_ENGINES\<close> and \<^verbatim>\<open>ENGINE_ICONS\<close>: the object literals
  are lists of their own properties, in the order of the source.
\<close>

definition ENGINE_DISPLAY_NAMES :: "(string \<times> string) list" where
  "ENGINE_DISPLAY_NAMES =
     [(EngineType_value RpgMakerVX, ''RPG Maker VX''),
      (EngineType_value RpgMakerVXAce, ''RPG Maker VX Ace''),
      (EngineType_value RpgMakerMV, ''RPG Maker MV (NW.js)''),
      (EngineType_value RpgMakerMZ, ''RPG Maker MZ (NW.js)''),
      (EngineType_value NWjs, ''NWjs''),
      (EngineType_value RenPy, ''RenPy''),
      (EngineType_value Other, ''Other'')]"

definition SUPPORTED_ENGINES :: "EngineType list" where
  "SUPPORTED_ENGINES = [RpgMakerVX, RpgMakerVXAce, RpgMakerMV, RpgMakerMZ, RenPy, Other]"

definition ENGINE_ICONS :: "(string \<times> string) list" where
  "ENGINE_ICONS =
     [(EngineType_value RpgMakerVX, ''ri:gamepad-line''),
      (EngineType_value RpgMakerVXAce, ''ri:gamepad-line''),
      (EngineType_value RpgMakerMV, ''ri:gamepad-line''),
      (EngineType_value RpgMakerMZ, ''ri:gamepad-line''),
      (EngineType_value RenPy, ''ri:book-2-line''),
      (EngineType_value Other, ''ri:question-line'')]"

text \<open>
  Both tables are object literals, so \<^verbatim>\<open>table[key]\<close> also finds what an object inherits
  from \<^verbatim>\<open>Object.prototype\<close>. These are the property names of \<^verbatim>\<open>Object.prototype\<close> in
  ECMAScript; each holds a function, \<^verbatim>\<open>__proto__\<close> the prototype object itself, so each
  is truthy and none is a string.
\<close>

definition Object_prototype_keys :: "string list" where
  "Object_prototype_keys =
     [''constructor'', ''hasOwnProperty'', ''isPrototypeOf'', ''propertyIsEnumerable'',
      ''toLocaleString'', ''toString'', ''valueOf'', ''__proto__'', ''__defineGetter__'',
      ''__defineSetter__'', ''__lookupGetter__'', ''__lookupSetter__'']"

text \<open>
  What \<^verbatim>\<open>table[key]\<close> evaluates to: a text of the table, a member inherited from
  \<^verbatim>\<open>Object.prototype\<close>, or \<^verbatim>\<open>undefined\<close> (\<open>None\<close>).
\<close>

datatype property = Text string | Inherited string

definition get_property :: "(string \<times> string) list \<Rightarrow> string \<Rightarrow> property option" where
  "get_property table key =
     (case map_of table key of
        Some v \<Rightarrow> Some (Text v)
      | None \<Rightarrow> if key \<in> set Object_prototype_keys then Some (Inherited key) else None)"

text \<open>\<^verbatim>\<open>a || b\<close>: \<open>a\<close> when it is truthy (the empty string and \<^verbatim>\<open>undefined\<close> are not).\<close>

fun js_or :: "property option \<Rightarrow> property option \<Rightarrow> property option" where
  "js_or (Some (Text v)) b = (if v = [] then b else Some (Text v))"
| "js_or (Some (Inherited k)) b = Some (Inherited k)"
| "js_or None b = b"

text \<open>\<^verbatim>\<open>return ENGINE_DISPLAY_NAMES[engineType as EngineType] || engineType\<close>\<close>

definition getEngineDisplayName :: "string \<Rightarrow> property option" where
  "getEngineDisplayName engineType =
     js_or (get_property ENGINE_DISPLAY_NAMES engineType) (Some (Text engineType))"

text \<open>\<^verbatim>\<open>return ENGINE_ICONS[engineType] || ENGINE_ICONS[EngineType.Other]\<close>\<close>

definition getEngineIcon :: "string \<Rightarrow> property option" where
  "getEngineIcon engineType =
     js_or (get_property ENGINE_ICONS engineType) (get_property ENGINE_ICONS (EngineType_value Other))"

section \<open>src/types/engine.ts: the interfaces at the command boundary\<close>

text \<open>
  An interface declaration as the list of its members: name, type, and whether the
  member is optional (\<^verbatim>\<open>name?: type\<close>).
\<close>

datatype ts_type = TString | TNumber | TBoolean | TArray ts_type

type_synonym interface = "(string \<times> ts_type \<times> bool) list"

definition member_names :: "interface \<Rightarrow> string list" where
  "member_names i = map fst i"

text \<open>\<^verbatim>\<open>export interface GameDto\<close>, the declaration of the record \<open>GameDto\<close> above.\<close>

definition GameDto_interface :: interface where
  "GameDto_interface =
     [(''id'', TString, False),
      (''title'', TString, False),
      (''engineType'', TString, False),
      (''path'', TString, False),
      (''pathValid'', TBoolean, False),
      (''runtimeVersion'', TString, True),
      (''coverPath'', TString, True),
      (''createdAt'', TNumber, False),
      (''lastPlayedAt'', TNumber, True)]"

text \<open>
  \<^verbatim>\<open>export interface GameConfig\<close>, the type of the value that \<^verbatim>\<open>getGameSettings\<close> returns
  and \<^verbatim>\<open>saveGameSettings\<close> sends (src/lib/api.ts).
\<close>

definition GameConfig_interface :: interface where
  "GameConfig_interface =
     [(''engineType'', TString, False),
      (''entryPath'', TString, False),
      (''runtimeVersion'', TString, True),
      (''args'', TArray TString, False),
      (''sandboxHome'', TBoolean, False),
      (''coverFile'', TString, True)]"

text \<open>
  The LaunchConfig of the specification, in the specification's words:
  \<^verbatim>\<open>{engineType, entryPath, runtimeVersion?, args: ordered list of strings,
  sandboxHome: bool, useCompatLayer: bool, compatProfileName?, coverFile?}\<close>.
  It is compared with \<open>GameConfig_interface\<close>.
\<close>

definition spec_LaunchConfig :: interface where
  "spec_LaunchConfig =
     [(''engineType'', TString, False),
      (''entryPath'', TString, False),
      (''runtimeVersion'', TString, True),
      (''args'', TArray TString, False),
      (''sandboxHome'', TBoolean, False),
      (''useCompatLayer'', TBoolean, False),
      (''compatProfileName'', TString, True),
      (''coverFile'', TString, True)]"

section \<open>The game settings dialog of the library: the configuration it saves\<close>

text \<open>
  The later settings dialog (the second document of
  src/components/games/GameLibraryHeader.vue) builds the \<^verbatim>\<open>GameConfig\<close> that
  \<^verbatim>\<open>handleGameSave\<close> (src/unnamed/part_012) passes to \<^verbatim>\<open>saveGameSettings\<close>. Bottles is
  the compatibility layer of the product; a bottle is one of its named profiles.
\<close>

text \<open>The refs that the object literal of \<^verbatim>\<open>handleSave\<close> reads.\<close>

record settings_form =
  form_engineType :: string
  form_runtimeVersion :: string
  form_sandboxHome :: bool
  form_coverFile :: string
  form_bottleName :: string
  bottlesAvailable :: bool
  bottlesEnabled :: bool
  bottlesInstalled :: bool

text \<open>The value of a property of that object.\<close>

datatype config_value = CString string | CBoolean bool | CStrings "string list" | CUndefined

text \<open>\<^verbatim>\<open>x.trim() || undefined\<close>\<close>

definition trimmed_or_undefined :: "string \<Rightarrow> config_value" where
  "trimmed_or_undefined x = (if trim x = [] then CUndefined else CString (trim x))"

text \<open>
  \<^verbatim>\<open>const usingBottles = engineType.value === 'other' && bottlesAvailable.value &&
  bottlesEnabled.value && bottlesInstalled.value\<close>
\<close>

definition usingBottles :: "settings_form \<Rightarrow> bool" where
  "usingBottles f =
     (form_engineType f = ''other'' \<and> bottlesAvailable f \<and> bottlesEnabled f \<and> bottlesInstalled f)"

text \<open>
  \<^verbatim>\<open>const settings: GameConfig = { ... }\<close> of \<^verbatim>\<open>handleSave\<close>: the properties of the object
  literal in the order of the source. The local constants \<^verbatim>\<open>resolvedEntryPath\<close> and
  \<^verbatim>\<open>args\<close>, computed just before, are parameters.
\<close>

definition settings_literal ::
  "settings_form \<Rightarrow> string \<Rightarrow> string list \<Rightarrow> (string \<times> config_value) list" where
  "settings_literal f resolvedEntryPath args =
     [(''engineType'', CString (form_engineType f)),
      (''entryPath'', CString resolvedEntryPath),
      (''runtimeVersion'', trimmed_or_undefined (form_runtimeVersion f)),
      (''args'', CStrings args),
      (''sandboxHome'', CBoolean (form_sandboxHome f)),
      (''useBottles'', CBoolean (usingBottles f)),
      (''bottleName'',
         if usingBottles f then trimmed_or_undefined (form_bottleName f) else CUndefined),
      (''coverFile'', trimmed_or_undefined (form_coverFile f))]"


section \<open>The Registry and the Importer of the backend\<close>

text \<open>
  Modelled from the spec: the engine type inside the backend (section 9), "a closed
  tagged variant internally ({RpgMakerVX, RpgMakerVXAce, RpgMakerMV, RpgMakerMZ, RenPy,
  Other})". The backend is not among the sources. The constructors carry the prefix
  \<open>Kind_\<close>, since the enum \<open>EngineType\<close> of the sources has the plain names.
\<close>

datatype engine_kind =
  Kind_RpgMakerVX | Kind_RpgMakerVXAce | Kind_RpgMakerMV | Kind_RpgMakerMZ | Kind_RenPy | Kind_Other

definition all_engine_kinds :: "engine_kind list" where
  "all_engine_kinds =
     [Kind_RpgMakerVX, Kind_RpgMakerVXAce, Kind_RpgMakerMV, Kind_RpgMakerMZ, Kind_RenPy, Kind_Other]"

text \<open>
  Modelled from the spec: the string that stands for an engine type at the command
  boundary. The specification does not spell the strings (its example imports with
  \<^verbatim>\<open>rpgmakermv\<close>); they are the values of the members of the same names of the enum
  \<open>EngineType\<close> of the sources.
\<close>

fun boundary_string :: "engine_kind \<Rightarrow> string" where
  "boundary_string Kind_RpgMakerVX = EngineType_value RpgMakerVX"
| "boundary_string Kind_RpgMakerVXAce = EngineType_value RpgMakerVXAce"
| "boundary_string Kind_RpgMakerMV = EngineType_value RpgMakerMV"
| "boundary_string Kind_RpgMakerMZ = EngineType_value RpgMakerMZ"
| "boundary_string Kind_RenPy = EngineType_value RenPy"
| "boundary_string Kind_Other = EngineType_value Other"

text \<open>
  Modelled from the spec: "unknown boundary strings map to Other rather than failing"
  (section 9).
\<close>

definition engine_kind_of :: "string \<Rightarrow> engine_kind" where
  "engine_kind_of s =
     (case find (\<lambda>k. boundary_string k = s) all_engine_kinds of
        Some k \<Rightarrow> k
      | None \<Rightarrow> Kind_Other)"

text \<open>
  Modelled from the spec: the \<open>Game\<close> of the Registry (section 3 of the specification).
  The backend that stores the games, behind the commands \<^verbatim>\<open>import_game_dir\<close>,
  \<^verbatim>\<open>get_game\<close> and \<^verbatim>\<open>scan_games\<close>, is not among the sources; only the callers in
  src/lib/api.ts and the types of src/types/engine.ts are.
\<close>

record Game =
  game_id :: string
  game_title :: string
  game_engineType :: engine_kind
  game_path :: string
  game_profileKey :: string
  game_runtimeVersion :: "string option"
  game_coverImagePath :: "string option"
  game_createdAt :: int
  game_updatedAt :: int
  game_lastPlayedAt :: "int option"

text \<open>
  Modelled from the spec: what the Importer and the Scanner take from outside, which the
  specification leaves open: which paths exist, the entries of a directory, the
  Classifier (\<open>None\<close> when no signature matches), the identifier proposed for a new
  game, and the clock.
\<close>

record backend_env =
  path_exists :: "string \<Rightarrow> bool"
  list_dir :: "string \<Rightarrow> string list"
  classify :: "string list \<Rightarrow> engine_kind option"
  new_id :: "Game list \<Rightarrow> string"
  now :: int

text \<open>Modelled from the spec: the error kinds of the Registry (section 7).\<close>

datatype registry_error = InvalidPath | GameNotFound

text \<open>
  Modelled from the spec: "derives a title from the directory name if none supplied"
  (section 4.2). The directory name is the part of the path after the last slash.
\<close>

definition derive_title :: "string \<Rightarrow> string" where
  "derive_title p = rev (takeWhile (\<lambda>c. c \<noteq> CHR ''/'') (rev p))"

text \<open>
  Modelled from the spec: "assigns a new id" (section 4.2), the id being "unique"
  (section 3). The Importer takes the identifier proposed from outside unless a game
  has it already; then it takes one that is longer than every identifier in use.
\<close>

definition longer_id :: "string list \<Rightarrow> string" where
  "longer_id ids = replicate (Suc (foldr (\<lambda>x m. max (length x) m) ids 0)) CHR ''g''"

definition assign_id :: "backend_env \<Rightarrow> Game list \<Rightarrow> string" where
  "assign_id env reg =
     (if new_id env reg \<in> set (map game_id reg) then longer_id (map game_id reg)
      else new_id env reg)"

text \<open>
  Modelled from the spec: the registration that import and scan share (section 4.2):
  "assigns a new id and profileKey, inserts the Game, and returns it", the profileKey
  being the id (section 3: "defaults to id").
\<close>

definition register_game ::
  "backend_env \<Rightarrow> string option \<Rightarrow> string \<Rightarrow> engine_kind \<Rightarrow> Game list \<Rightarrow> Game \<times> Game list" where
  "register_game env title_opt p t reg =
     (let i = assign_id env reg;
          g = \<lparr> game_id = i,
                game_title = (case title_opt of Some x \<Rightarrow> x | None \<Rightarrow> derive_title p),
                game_engineType = t, game_path = p, game_profileKey = i,
                game_runtimeVersion = None, game_coverImagePath = None,
                game_createdAt = now env, game_updatedAt = now env,
                game_lastPlayedAt = None \<rparr>
      in (g, reg @ [g]))"

text \<open>
  Modelled from the spec: \<^verbatim>\<open>import(path, engineType) -> Game\<close> (section 4.2): "validates
  path exists, classifies if engine type is unspecified, ... Fails with InvalidPath if
  the path does not exist or is not readable". The engine type arrives as a boundary
  string and is stored as a variant. A directory that matches no signature is of the
  type Other (section 4.1).
\<close>

definition import_game ::
  "backend_env \<Rightarrow> string \<Rightarrow> string option \<Rightarrow> string option \<Rightarrow> Game list \<Rightarrow>
   registry_error + Game \<times> Game list" where
  "import_game env p t_opt title_opt reg =
     (if \<not> path_exists env p then Inl InvalidPath
      else
        let t = (case t_opt of
                   Some s \<Rightarrow> engine_kind_of s
                 | None \<Rightarrow> (case classify env (list_dir env p) of Some c \<Rightarrow> c | None \<Rightarrow> Kind_Other))
        in Inr (register_game env title_opt p t reg))"

text \<open>
  Modelled from the spec: a Game as it is read from the Registry: the stored fields and
  \<^verbatim>\<open>pathValid\<close>, which "is never stored, it is computed on read by checking filesystem
  existence" (section 3).
\<close>

record Game_read = Game +
  game_pathValid :: bool

definition read_game :: "backend_env \<Rightarrow> Game \<Rightarrow> Game_read" where
  "read_game env g =
     \<lparr> game_id = game_id g, game_title = game_title g, game_engineType = game_engineType g,
       game_path = game_path g, game_profileKey = game_profileKey g,
       game_runtimeVersion = game_runtimeVersion g,
       game_coverImagePath = game_coverImagePath g, game_createdAt = game_createdAt g,
       game_updatedAt = game_updatedAt g, game_lastPlayedAt = game_lastPlayedAt g,
       game_pathValid = path_exists env (game_path g) \<rparr>"

text \<open>Modelled from the spec: \<^verbatim>\<open>getGame: id -> Game?\<close> (section 6).\<close>

definition getGame :: "backend_env \<Rightarrow> string \<Rightarrow> Game list \<Rightarrow> Game_read option" where
  "getGame env i reg = map_option (read_game env) (find (\<lambda>g. game_id g = i) reg)"

section \<open>The Scanner of the backend\<close>

text \<open>
  Modelled from the spec: a directory tree: the name of the directory, whether it can be
  read, the names of its files, and its subdirectories. The Scanner is not among the
  sources.
\<close>

datatype dir = Dir string bool "string list" "dir list"

text \<open>Modelled from the spec: the name of a directory of the tree.\<close>

fun dir_name :: "dir \<Rightarrow> string" where
  "dir_name (Dir n r fs ds) = n"

text \<open>\<^verbatim>\<open>interface ScanGamesResult\<close> (src/types/engine.ts).\<close>

record ScanGamesResult =
  scannedDirs :: nat
  foundGames :: nat
  imported :: nat
  skippedExisting :: nat

text \<open>
  Modelled from the spec: the state of a scan: the counters of the result, the Registry,
  and the directories visited so far, each with its depth below the root.
\<close>

record scan_state = ScanGamesResult +
  registry :: "Game list"
  visited :: "(string \<times> nat) list"

text \<open>
  Modelled from the spec: one visit (section 4.2): "at each directory it applies the
  Classifier; a positive classification is counted in foundGames; if a Game with that
  resolved path does not already exist in the Registry, it is imported and imported
  increments, else skippedExisting increments".
\<close>

definition visit_dir :: "backend_env \<Rightarrow> string \<Rightarrow> nat \<Rightarrow> string list \<Rightarrow> scan_state \<Rightarrow> scan_state" where
  "visit_dir env p k entries st =
     (let st1 = st\<lparr>scannedDirs := scannedDirs st + 1, visited := visited st @ [(p, k)]\<rparr> in
      case classify env entries of
        None \<Rightarrow> st1
      | Some t \<Rightarrow>
          let st2 = st1\<lparr>foundGames := foundGames st1 + 1\<rparr> in
          if p \<in> set (map game_path (registry st2))
          then st2\<lparr>skippedExisting := skippedExisting st2 + 1\<rparr>
          else st2\<lparr>registry := snd (register_game env None p t (registry st2)),
                   imported := imported st2 + 1\<rparr>)"

text \<open>
  Modelled from the spec: the traversal (section 4.2): "depth 0 = root itself; traversal
  never descends past maxDepth"; "the walk does not abort on an unreadable subdirectory,
  it is skipped and traversal continues". \<open>scan_dir env m k p d\<close> scans the directory
  \<open>d\<close>, whose path is \<open>p\<close> and whose depth is \<open>k\<close>, with the maximal depth \<open>m\<close>.
\<close>

fun scan_dir :: "backend_env \<Rightarrow> nat \<Rightarrow> nat \<Rightarrow> string \<Rightarrow> dir \<Rightarrow> scan_state \<Rightarrow> scan_state"
  and scan_subdirs :: "backend_env \<Rightarrow> nat \<Rightarrow> nat \<Rightarrow> string \<Rightarrow> dir list \<Rightarrow> scan_state \<Rightarrow> scan_state"
  where
  "scan_dir env m k p (Dir n r fs ds) st =
     (if \<not> r then st
      else
        let st1 = visit_dir env p k (fs @ map dir_name ds) st in
        if k < m then scan_subdirs env m (Suc k) p ds st1 else st1)"
| "scan_subdirs env m k p [] st = st"
| "scan_subdirs env m k p (d # ds) st =
     scan_subdirs env m k p ds (scan_dir env m k (p @ ''/'' @ dir_name d) d st)"

text \<open>
  Modelled from the spec: \<^verbatim>\<open>scan(root, maxDepth)\<close> on the tree found at the path \<open>root\<close>,
  from the Registry \<open>reg\<close>.
\<close>

definition scan :: "backend_env \<Rightarrow> string \<Rightarrow> dir \<Rightarrow> nat \<Rightarrow> Game list \<Rightarrow> scan_state" where
  "scan env root tree maxDepth reg =
     scan_dir env maxDepth 0 root tree
       \<lparr>scannedDirs = 0, foundGames = 0, imported = 0, skippedExisting = 0,
        registry = reg, visited = []\<rparr>"

text \<open>
  The paths that a scan classifies as games, in the order of the traversal. They do not
  depend on the Registry.
\<close>

fun found_paths :: "backend_env \<Rightarrow> nat \<Rightarrow> nat \<Rightarrow> string \<Rightarrow> dir \<Rightarrow> string list"
  and found_paths_subdirs :: "backend_env \<Rightarrow> nat \<Rightarrow> nat \<Rightarrow> string \<Rightarrow> dir list \<Rightarrow> string list"
  where
  "found_paths env m k p (Dir n r fs ds) =
     (if \<not> r then []
      else
        (case classify env (fs @ map dir_name ds) of None \<Rightarrow> [] | Some t \<Rightarrow> [p]) @
        (if k < m then found_paths_subdirs env m (Suc k) p ds else []))"
| "found_paths_subdirs env m k p [] = []"
| "found_paths_subdirs env m k p (d # ds) =
     found_paths env m k (p @ ''/'' @ dir_name d) d @ found_paths_subdirs env m k p ds"

section \<open>Runtime Acquisition of the backend\<close>

text \<open>
  Modelled from the spec: the \<open>Engine\<close> of the Registry (section 3). Runtime Acquisition,
  behind the command \<^verbatim>\<open>download_nwjs_stable\<close>, is not among the sources; only its callers
  are.
\<close>

record Engine =
  engine_id :: string
  engine_name :: string
  engine_version :: string
  engine_engineType :: string
  engine_installPath :: string
  engine_installedAt :: int

text \<open>
  Modelled from the spec: the state machine of an install task (section 4.3):
  "Resolving -> Downloading -> Verifying -> Installing -> Installed, with Failed
  reachable from any non-terminal state".
\<close>

datatype task_state = Resolving | Downloading | Verifying | Installing | Installed | Failed

text \<open>
  Modelled from the spec: what an install can change: the Engine rows of the Registry,
  the install directories (path and content) and the temporary location (path and
  content).
\<close>

record install_world =
  engines :: "Engine list"
  install_dirs :: "(string \<times> string) list"
  temp_files :: "(string \<times> string) list"

text \<open>
  Modelled from the spec: what Runtime Acquisition takes from outside, which the
  specification leaves open: the version source (\<open>None\<close> when it cannot be reached),
  the download (the bytes received and whether the transfer ran to its end), the check
  of completeness, whether the final move succeeds, the paths, the id of the new Engine
  and the clock.
\<close>

record acquisition_env =
  resolveStable :: "string \<Rightarrow> (string \<times> string) option"
  fetch :: "string \<Rightarrow> string \<Rightarrow> string \<times> bool"
  complete :: "string \<Rightarrow> bool"
  move_succeeds :: bool
  temp_path :: "string \<Rightarrow> string \<Rightarrow> string"
  install_path :: "string \<Rightarrow> string \<Rightarrow> string"
  new_engine_id :: "Engine list \<Rightarrow> string"
  install_time :: int

text \<open>
  Modelled from the spec: an install task: its state, the version and the download
  target it resolved, whether the final move is done, and the world.
\<close>

record install_task =
  task_state :: task_state
  task_version :: string
  task_target :: string
  task_moved :: bool
  task_world :: install_world

text \<open>
  Modelled from the spec: a task starts in Resolving, with nothing resolved and nothing
  moved (section 4.3).
\<close>

definition start_task :: "install_world \<Rightarrow> install_task" where
  "start_task w =
     \<lparr>task_state = Resolving, task_version = [], task_target = [], task_moved = False,
      task_world = w\<rparr>"

text \<open>Modelled from the spec: the Engine row that an install inserts (section 3).\<close>

definition engine_row :: "acquisition_env \<Rightarrow> string \<Rightarrow> string \<Rightarrow> string \<Rightarrow> Engine list \<Rightarrow> Engine" where
  "engine_row env family flavor v es =
     \<lparr>engine_id = new_engine_id env es, engine_name = family, engine_version = v,
      engine_engineType = family, engine_installPath = install_path env v flavor,
      engine_installedAt = install_time env\<rparr>"

text \<open>
  Modelled from the spec: one step of \<^verbatim>\<open>downloadAndInstall(engineFamily, flavor)\<close>
  (section 4.3): it "downloads to a temporary location, verifies completeness, then
  atomically moves the verified artifact into its final install directory and only then
  inserts the Engine row". The state Installing takes two steps, the move and the
  insertion. A crash stops the task between two steps.
\<close>

definition install_step ::
  "acquisition_env \<Rightarrow> string \<Rightarrow> string \<Rightarrow> install_task \<Rightarrow> install_task" where
  "install_step env family flavor t =
     (let w = task_world t;
          tmp = temp_path env (task_version t) flavor in
      case task_state t of
        Resolving \<Rightarrow>
          (case resolveStable env family of
             None \<Rightarrow> t\<lparr>task_state := Failed\<rparr>
           | Some (v, target) \<Rightarrow>
               t\<lparr>task_state := Downloading, task_version := v, task_target := target\<rparr>)
      | Downloading \<Rightarrow>
          (case fetch env (task_target t) flavor of
             (bytes, finished) \<Rightarrow>
               t\<lparr>task_state := (if finished then Verifying else Failed),
                 task_world := w\<lparr>temp_files := (tmp, bytes) # temp_files w\<rparr>\<rparr>)
      | Verifying \<Rightarrow>
          (case map_of (temp_files w) tmp of
             None \<Rightarrow> t\<lparr>task_state := Failed\<rparr>
           | Some bytes \<Rightarrow>
               t\<lparr>task_state := (if complete env bytes then Installing else Failed)\<rparr>)
      | Installing \<Rightarrow>
          if task_moved t
          then t\<lparr>task_state := Installed,
                 task_world :=
                   w\<lparr>engines :=
                       engines w @ [engine_row env family flavor (task_version t) (engines w)]\<rparr>\<rparr>
          else
            (case map_of (temp_files w) tmp of
               None \<Rightarrow> t\<lparr>task_state := Failed\<rparr>
             | Some bytes \<Rightarrow>
                 if move_succeeds env
                 then t\<lparr>task_moved := True,
                        task_world :=
                          w\<lparr>temp_files := filter (\<lambda>e. fst e \<noteq> tmp) (temp_files w),
                            install_dirs :=
                              (install_path env (task_version t) flavor, bytes) # install_dirs w\<rparr>\<rparr>
                 else t\<lparr>task_state := Failed\<rparr>)
      | Installed \<Rightarrow> t
      | Failed \<Rightarrow> t)"

text \<open>
  Modelled from the spec: \<^verbatim>\<open>downloadAndInstall(engineFamily, flavor)\<close> run to its end: the
  five steps from Resolving to Installed.
\<close>

definition downloadAndInstall ::
  "acquisition_env \<Rightarrow> string \<Rightarrow> string \<Rightarrow> install_world \<Rightarrow> install_task" where
  "downloadAndInstall env family flavor w = (install_step env family flavor ^^ 5) (start_task w)"

text \<open>The number of steps that a task has left at most.\<close>

definition steps_left :: "install_task \<Rightarrow> nat" where
  "steps_left t =
     (case task_state t of
        Resolving \<Rightarrow> 5
      | Downloading \<Rightarrow> 4
      | Verifying \<Rightarrow> 3
      | Installing \<Rightarrow> (if task_moved t then 1 else 2)
      | Installed \<Rightarrow> 0
      | Failed \<Rightarrow> 0)"

text \<open>
  What holds of a task of \<open>downloadAndInstall\<close> on the world \<open>w\<close> after any number of
  steps.
\<close>

definition install_invariant ::
  "acquisition_env \<Rightarrow> string \<Rightarrow> string \<Rightarrow> install_world \<Rightarrow> install_task \<Rightarrow> bool" where
  "install_invariant env family flavor w t =
     ((\<not> task_moved t \<longrightarrow>
         engines (task_world t) = engines w \<and> install_dirs (task_world t) = install_dirs w) \<and>
      (task_moved t \<longrightarrow> task_state t = Installing \<or> task_state t = Installed) \<and>
      (task_state t = Installed \<longrightarrow> task_moved t) \<and>
      (task_state t = Installing \<and> \<not> task_moved t \<longrightarrow>
         (\<exists>bytes. map_of (temp_files (task_world t)) (temp_path env (task_version t) flavor)
                    = Some bytes \<and> complete env bytes)) \<and>
      (task_moved t \<longrightarrow>
         (\<exists>bytes. complete env bytes \<and>
            install_dirs (task_world t) =
              (install_path env (task_version t) flavor, bytes) # install_dirs w) \<and>
         (task_state t = Installing \<longrightarrow> engines (task_world t) = engines w) \<and>
         (task_state t = Installed \<longrightarrow>
            engines (task_world t) =
              engines w @ [engine_row env family flavor (task_version t) (engines w)])))"

section \<open>Migration 0002 backfills every row\<close>


lemma profile_key_backfill_added_column:
  "profile_key (backfill_profile_key (add_column_profile_key r)) = Some (row_id r)"
  by (simp add: backfill_profile_key_def add_column_profile_key_def)

lemma old_columns_backfill_added_column:
  "old_columns (backfill_profile_key (add_column_profile_key r)) = r"
  by (simp add: backfill_profile_key_def add_column_profile_key_def old_columns_def)

text \<open>
  Claim C1. After migration 0002 on a games table whose rows predate the
  \<^verbatim>\<open>profile_key\<close> column, the table holds the same rows in the same order, every old
  column unchanged, and in every row \<^verbatim>\<open>profile_key\<close> is the row's \<^verbatim>\<open>id\<close>: the new
  column is NULL in every pre-existing row, so the UPDATE reaches each of them.
\<close>

theorem migration_0002_profile_key_is_id:
  "map old_columns (migration_0002 rows) = rows \<and>
   map profile_key (migration_0002 rows) = map (\<lambda>r. Some (row_id r)) rows"
  by (simp add: migration_0002_def comp_def profile_key_backfill_added_column
      old_columns_backfill_added_column)

section \<open>src/lib/tauri.ts: what the wrappers return\<close>

lemma safeInvoke_never_throws: "\<exists>r. safeInvoke invoke command args = Inr r"
  by (simp add: safeInvoke_def split: settled.splits)

lemma invokeResult_resolved:
  "invoke command args = Resolved data \<Longrightarrow> invokeResult invoke command args = Inr (Success data)"
  by (simp add: invokeResult_def)

lemma invokeResult_rejected_string:
  "invoke command args = Rejected (JString t) \<Longrightarrow>
   invokeResult invoke command args = Inr (Failure (JString t))"
  by (simp add: invokeResult_def)

text \<open>
  On the error values that a command of the backend rejects with, a text or a JSON
  value, and on an \<^verbatim>\<open>Error\<close> with a text as its message, the result is a string.
\<close>

lemma formatInvokeError_string:
  "formatInvokeError (JString s) = Inr (JString s)"
  "formatInvokeError (JError (JString m)) = Inr (JString m)"
  "formatInvokeError JNull = Inr (JString ''null'')"
  "formatInvokeError (JNumber t) = Inr (JString t)"
  "\<exists>r. formatInvokeError (JBoolean b) = Inr (JString r)"
  "\<exists>r. formatInvokeError (JObject (JString m) (StringifyText t) x) = Inr (JString r)"
  by simp_all

text \<open>
  Claim C9, at two inputs where the wrappers do not do what the claim says. When the
  command rejects with \<^verbatim>\<open>undefined\<close>, \<^verbatim>\<open>formatInvokeError\<close> returns \<^verbatim>\<open>undefined\<close>, which is
  no string, and \<^verbatim>\<open>invokeResult\<close> returns \<^verbatim>\<open>{ ok: false, error: undefined }\<close>. When it
  rejects with an object on which both \<^verbatim>\<open>JSON.stringify\<close> and \<^verbatim>\<open>String\<close> throw,
  \<^verbatim>\<open>invokeResult\<close> throws.
\<close>

theorem invokeResult_error_not_always_string:
  "formatInvokeError JUndefined = Inr JUndefined \<and>
   invokeResult (\<lambda>command args. (Rejected JUndefined :: int settled)) ''launch_game'' None
     = Inr (Failure JUndefined) \<and>
   (\<forall>t. JUndefined \<noteq> JString t) \<and>
   invokeResult
     (\<lambda>command args. (Rejected (JObject JUndefined StringifyThrows ToStringThrows) :: int settled))
     ''launch_game'' None = Inl TypeError"
  by (simp add: invokeResult_def)

section \<open>src/App.vue: a game with an invalid path is not launched\<close>

lemma find_distinct_member:
  "distinct (map f xs) \<Longrightarrow> x \<in> set xs \<Longrightarrow> find (\<lambda>y. f y = f x) xs = Some x"
  by (induction xs) (auto simp: image_iff)

text \<open>
  Claim C2. For a game of the list whose \<^verbatim>\<open>pathValid\<close> is false (the ids of the list
  being distinct), \<^verbatim>\<open>launchGame\<close> shows the failure "the game path is invalid", throws
  nothing, sends no command to the backend, so no process is spawned, and leaves the
  list of games, and with it every field of every game, as it was.
\<close>

theorem launchGame_invalid_path:
  "g \<in> set (games s) \<Longrightarrow> distinct (map entry_id (games s)) \<Longrightarrow> \<not> entry_pathValid g \<Longrightarrow>
   fst (launchGame invoke (entry_id g) s) = None \<and>
   currentTask (snd (launchGame invoke (entry_id g) s)) =
     Some \<lparr>label = LaunchFailedInvalidPath, progress = 0\<rparr> \<and>
   issued (snd (launchGame invoke (entry_id g) s)) = issued s \<and>
   games (snd (launchGame invoke (entry_id g) s)) = games s \<and>
   selectedGameId (snd (launchGame invoke (entry_id g) s)) = selectedGameId s"
  using find_distinct_member [of entry_id "games s" g]
  by (simp add: launchGame_def setStatus_def)

theorem launchGame_invalid_path_witness:
  "fst (launchGame (\<lambda>command args. Resolved 4242)
     ''g2''
     \<lparr>games =
        [\<lparr>entry_id = ''g1'', entry_title = ''Foo'', entry_engineType = ''rmmz'',
          entry_version = None, entry_path = ''/games/Foo'', entry_pathValid = True\<rparr>,
         \<lparr>entry_id = ''g2'', entry_title = ''Bar'', entry_engineType = ''rmmv'',
          entry_version = None, entry_path = ''/games/Bar'', entry_pathValid = False\<rparr>],
      selectedGameId = ''g1'', currentTask = None, issued = []\<rparr>) = None \<and>
   issued (snd (launchGame (\<lambda>command args. Resolved 4242)
     ''g2''
     \<lparr>games =
        [\<lparr>entry_id = ''g1'', entry_title = ''Foo'', entry_engineType = ''rmmz'',
          entry_version = None, entry_path = ''/games/Foo'', entry_pathValid = True\<rparr>,
         \<lparr>entry_id = ''g2'', entry_title = ''Bar'', entry_engineType = ''rmmv'',
          entry_version = None, entry_path = ''/games/Bar'', entry_pathValid = False\<rparr>],
      selectedGameId = ''g1'', currentTask = None, issued = []\<rparr>)) = []"
  using launchGame_invalid_path
    [of "\<lparr>entry_id = ''g2'', entry_title = ''Bar'', entry_engineType = ''rmmv'',
          entry_version = None, entry_path = ''/games/Bar'', entry_pathValid = False\<rparr>"
        "\<lparr>games =
        [\<lparr>entry_id = ''g1'', entry_title = ''Foo'', entry_engineType = ''rmmz'',
          entry_version = None, entry_path = ''/games/Foo'', entry_pathValid = True\<rparr>,
         \<lparr>entry_id = ''g2'', entry_title = ''Bar'', entry_engineType = ''rmmv'',
          entry_version = None, entry_path = ''/games/Bar'', entry_pathValid = False\<rparr>],
      selectedGameId = ''g1'', currentTask = None, issued = []\<rparr>"
        "\<lambda>command args. Resolved 4242"]
  by simp

text \<open>
  The same game with a valid path: the command \<^verbatim>\<open>launch_game\<close> is sent.
\<close>

lemma launchGame_valid_path_issues_command:
  "issued (snd (launchGame (\<lambda>command args. Resolved 4242)
     ''g1''
     \<lparr>games =
        [\<lparr>entry_id = ''g1'', entry_title = ''Foo'', entry_engineType = ''rmmz'',
          entry_version = None, entry_path = ''/games/Foo'', entry_pathValid = True\<rparr>],
      selectedGameId = ''g1'', currentTask = None, issued = []\<rparr>))
   = [(''launch_game'', Some [(''gameId'', JString ''g1'')])]"
  by (simp add: launchGame_def setStatus_def invokeResult_def)

text \<open>
  When the command fails with an \<^verbatim>\<open>Error\<close> whose message is a symbol, building the
  label throws: \<^verbatim>\<open>launchGame\<close> ends with a TypeError after the command was sent, and the
  status still says "launching".
\<close>

lemma launchGame_symbol_message_throws:
  "launchGame (\<lambda>command args. Rejected (JError JSymbol))
     ''g1''
     \<lparr>games =
        [\<lparr>entry_id = ''g1'', entry_title = ''Foo'', entry_engineType = ''rmmz'',
          entry_version = None, entry_path = ''/games/Foo'', entry_pathValid = True\<rparr>],
      selectedGameId = ''g1'', currentTask = None, issued = []\<rparr>
   = (Some TypeError,
      \<lparr>games =
        [\<lparr>entry_id = ''g1'', entry_title = ''Foo'', entry_engineType = ''rmmz'',
          entry_version = None, entry_path = ''/games/Foo'', entry_pathValid = True\<rparr>],
      selectedGameId = ''g1'',
      currentTask = Some \<lparr>label = Launching ''Foo'', progress = 0\<rparr>,
      issued = [(''launch_game'', Some [(''gameId'', JString ''g1'')])]\<rparr>)"
  by (simp add: launchGame_def setStatus_def invokeResult_def)

section \<open>The game settings dialog: what a configuration that does not load leaves\<close>

text \<open>
  When loading the launch configuration fails (\<^verbatim>\<open>invokeResult\<close> returns a result that
  is not ok), the dialog holds \<^verbatim>\<open>sandboxHome = true\<close> and an empty argument text, from
  which \<^verbatim>\<open>saveLaunchConfig\<close> derives the empty argument list.
\<close>

lemma loadLaunchConfig_failure_defaults:
  "invokeResult invoke ''get_game_launch_config'' (Some [(''gameId'', JString gameId)])
     = Inr (Failure err) \<Longrightarrow>
   \<exists>s'. loadLaunchConfig invoke gameId s = Inr s' \<and> sandboxHome s' = Some True \<and>
        launchArgsText s' = [] \<and> launch_args (launchArgsText s') = []"
  by (simp add: loadLaunchConfig_def launch_args_def trim_def)

text \<open>A configuration that loads without \<^verbatim>\<open>args\<close> gives the empty argument list too.\<close>

lemma loadLaunchConfig_missing_args:
  "invoke ''get_game_launch_config'' (Some [(''gameId'', JString gameId)])
     = Resolved (Some \<lparr>data_args = None, data_sandboxHome = b\<rparr>) \<Longrightarrow>
   loadLaunchConfig invoke gameId s = Inr \<lparr>launchArgsText = [], sandboxHome = b\<rparr>"
  by (simp add: loadLaunchConfig_def invokeResult_def)

lemma initial_dialog_state_defaults:
  "sandboxHome initial_dialog_state = Some True \<and>
   launch_args (launchArgsText initial_dialog_state) = []"
  by (simp add: initial_dialog_state_def launch_args_def trim_def)

text \<open>
  Claim C8, at two inputs where the dialog does not do what the claim says. The dialog
  shows a game with \<^verbatim>\<open>sandboxHome = false\<close> and one argument, and the configuration of
  the next game is absent. When the backend answers with an object that has no
  \<^verbatim>\<open>sandboxHome\<close>, the ref holds \<^verbatim>\<open>undefined\<close> afterwards, not \<^verbatim>\<open>true\<close>. When it answers
  \<^verbatim>\<open>null\<close>, \<^verbatim>\<open>loadLaunchConfig\<close> throws and the refs keep the configuration of the game
  shown before.
\<close>

theorem loadLaunchConfig_no_default_on_empty_answer:
  "loadLaunchConfig
     (\<lambda>command args. Resolved (Some \<lparr>data_args = None, data_sandboxHome = None\<rparr>))
     ''g2'' \<lparr>launchArgsText = ''--test'', sandboxHome = Some False\<rparr>
     = Inr \<lparr>launchArgsText = [], sandboxHome = None\<rparr> \<and>
   loadLaunchConfig (\<lambda>command args. Resolved None)
     ''g2'' \<lparr>launchArgsText = ''--test'', sandboxHome = Some False\<rparr>
     = Inl TypeError \<and>
   launch_args ''--test'' = [''--test'']"
  by (simp add: loadLaunchConfig_def invokeResult_def launch_args_def trim_def js_whitespace_def)

section \<open>src/hooks/useGames.ts: what update and delete change\<close>

lemma findIndex_Some:
  "findIndex p xs = Some i \<Longrightarrow> i < length xs \<and> p (xs ! i) \<and> (\<forall>k<i. \<not> p (xs ! k))"
proof (induction xs arbitrary: i)
  case Nil
  then show ?case by simp
next
  case (Cons x xs)
  show ?case
  proof (cases "p x")
    case True
    with Cons.prems show ?thesis by simp
  next
    case False
    with Cons.prems obtain j where j: "findIndex p xs = Some j" "i = Suc j"
      by (auto split: option.splits)
    from Cons.IH [OF j(1)] False j(2) show ?thesis
      by (auto simp: nth_Cons split: nat.splits)
  qed
qed

text \<open>
  Claim C10. When the command succeeds, \<^verbatim>\<open>handleUpdateGame\<close> returns true and keeps the
  length of the list; an entry that differs afterwards had the id, is now the game the
  command returned, and no entry before it had the id, so at most one entry changes.
  When the command succeeds, \<^verbatim>\<open>handleDeleteGame\<close> returns true and the list is the old
  list without the entries of that id. When the command fails, both return false and
  the list is the old list.
\<close>

theorem useGames_update_delete_frame:
  "(updateGame ident input = Resolved g' \<longrightarrow>
      fst (handleUpdateGame updateGame ident input s) \<and>
      length (store_games (snd (handleUpdateGame updateGame ident input s))) = length (store_games s) \<and>
      (\<forall>j<length (store_games s).
         store_games (snd (handleUpdateGame updateGame ident input s)) ! j \<noteq> store_games s ! j \<longrightarrow>
           dto_id (store_games s ! j) = ident \<and>
           store_games (snd (handleUpdateGame updateGame ident input s)) ! j = g' \<and>
           (\<forall>k<j. dto_id (store_games s ! k) \<noteq> ident))) \<and>
   (deleteGame ident = Resolved u \<longrightarrow>
      fst (handleDeleteGame deleteGame ident s) \<and>
      store_games (snd (handleDeleteGame deleteGame ident s)) =
        filter (\<lambda>g. dto_id g \<noteq> ident) (store_games s)) \<and>
   (updateGame ident input = Rejected e \<longrightarrow>
      \<not> fst (handleUpdateGame updateGame ident input s) \<and>
      store_games (snd (handleUpdateGame updateGame ident input s)) = store_games s) \<and>
   (deleteGame ident = Rejected e \<longrightarrow>
      \<not> fst (handleDeleteGame deleteGame ident s) \<and>
      store_games (snd (handleDeleteGame deleteGame ident s)) = store_games s)"
proof (intro conjI impI)
  assume r: "updateGame ident input = Resolved g'"
  show "fst (handleUpdateGame updateGame ident input s)"
    using r by (simp add: handleUpdateGame_def Let_def)
  show "length (store_games (snd (handleUpdateGame updateGame ident input s))) = length (store_games s)"
    using r by (simp add: handleUpdateGame_def Let_def split: option.splits)
  show "\<forall>j<length (store_games s).
         store_games (snd (handleUpdateGame updateGame ident input s)) ! j \<noteq> store_games s ! j \<longrightarrow>
           dto_id (store_games s ! j) = ident \<and>
           store_games (snd (handleUpdateGame updateGame ident input s)) ! j = g' \<and>
           (\<forall>k<j. dto_id (store_games s ! k) \<noteq> ident)"
  proof (cases "findIndex (\<lambda>g. dto_id g = ident) (store_games s)")
    case None
    with r show ?thesis by (simp add: handleUpdateGame_def Let_def)
  next
    case (Some i)
    from findIndex_Some [OF Some]
    have i: "i < length (store_games s)" "dto_id (store_games s ! i) = ident"
      "\<forall>k<i. dto_id (store_games s ! k) \<noteq> ident" by auto
    have upd: "store_games (snd (handleUpdateGame updateGame ident input s)) = (store_games s)[i := g']"
      using r Some by (simp add: handleUpdateGame_def Let_def)
    show ?thesis
      unfolding upd using i by (auto simp: nth_list_update)
  qed
next
  assume "deleteGame ident = Resolved u"
  then show "fst (handleDeleteGame deleteGame ident s)"
    and "store_games (snd (handleDeleteGame deleteGame ident s)) =
        filter (\<lambda>g. dto_id g \<noteq> ident) (store_games s)"
    by (simp_all add: handleDeleteGame_def Let_def)
next
  assume "updateGame ident input = Rejected e"
  then show "\<not> fst (handleUpdateGame updateGame ident input s)"
    and "store_games (snd (handleUpdateGame updateGame ident input s)) = store_games s"
    by (simp_all add: handleUpdateGame_def Let_def)
next
  assume "deleteGame ident = Rejected e"
  then show "\<not> fst (handleDeleteGame deleteGame ident s)"
    and "store_games (snd (handleDeleteGame deleteGame ident s)) = store_games s"
    by (simp_all add: handleDeleteGame_def Let_def)
qed
theorem useGames_update_delete_frame_witness:
  "fst (handleUpdateGame
     (\<lambda>i u. Resolved
      \<lparr>dto_id = ''b'', dto_title = ''Baz'', dto_engineType = ''rpgmakermv'', dto_path = ''/games/Bar'',
       dto_pathValid = True, dto_runtimeVersion = None, dto_coverPath = None, dto_createdAt = 1,
       dto_lastPlayedAt = None\<rparr>)
     ''b''
     \<lparr>upd_title = Some ''Baz'', upd_engineType = None, upd_path = None, upd_runtimeVersion = None\<rparr>
     \<lparr>store_games =
      [\<lparr>dto_id = ''a'', dto_title = ''Foo'', dto_engineType = ''rpgmakermv'', dto_path = ''/games/Foo'',
       dto_pathValid = True, dto_runtimeVersion = None, dto_coverPath = None, dto_createdAt = 1,
       dto_lastPlayedAt = None\<rparr>,
       \<lparr>dto_id = ''b'', dto_title = ''Bar'', dto_engineType = ''rpgmakermv'', dto_path = ''/games/Bar'',
       dto_pathValid = True, dto_runtimeVersion = None, dto_coverPath = None, dto_createdAt = 1,
       dto_lastPlayedAt = None\<rparr>],
     loading = False, error = None\<rparr>) \<and>
   store_games (snd (handleDeleteGame (\<lambda>i. Resolved ()) ''b''
     \<lparr>store_games =
      [\<lparr>dto_id = ''a'', dto_title = ''Foo'', dto_engineType = ''rpgmakermv'', dto_path = ''/games/Foo'',
       dto_pathValid = True, dto_runtimeVersion = None, dto_coverPath = None, dto_createdAt = 1,
       dto_lastPlayedAt = None\<rparr>,
       \<lparr>dto_id = ''b'', dto_title = ''Bar'', dto_engineType = ''rpgmakermv'', dto_path = ''/games/Bar'',
       dto_pathValid = True, dto_runtimeVersion = None, dto_coverPath = None, dto_createdAt = 1,
       dto_lastPlayedAt = None\<rparr>],
     loading = False, error = None\<rparr>)) =
     [\<lparr>dto_id = ''a'', dto_title = ''Foo'', dto_engineType = ''rpgmakermv'', dto_path = ''/games/Foo'',
       dto_pathValid = True, dto_runtimeVersion = None, dto_coverPath = None, dto_createdAt = 1,
       dto_lastPlayedAt = None\<rparr>] \<and>
   \<not> fst (handleUpdateGame (\<lambda>i u. Rejected (JString ''locked'')) ''b''
     \<lparr>upd_title = Some ''Baz'', upd_engineType = None, upd_path = None, upd_runtimeVersion = None\<rparr>
     \<lparr>store_games =
      [\<lparr>dto_id = ''a'', dto_title = ''Foo'', dto_engineType = ''rpgmakermv'', dto_path = ''/games/Foo'',
       dto_pathValid = True, dto_runtimeVersion = None, dto_coverPath = None, dto_createdAt = 1,
       dto_lastPlayedAt = None\<rparr>,
       \<lparr>dto_id = ''b'', dto_title = ''Bar'', dto_engineType = ''rpgmakermv'', dto_path = ''/games/Bar'',
       dto_pathValid = True, dto_runtimeVersion = None, dto_coverPath = None, dto_createdAt = 1,
       dto_lastPlayedAt = None\<rparr>],
     loading = False, error = None\<rparr>) \<and>
   \<not> fst (handleDeleteGame (\<lambda>i. Rejected (JString ''locked'')) ''b''
     \<lparr>store_games =
      [\<lparr>dto_id = ''a'', dto_title = ''Foo'', dto_engineType = ''rpgmakermv'', dto_path = ''/games/Foo'',
       dto_pathValid = True, dto_runtimeVersion = None, dto_coverPath = None, dto_createdAt = 1,
       dto_lastPlayedAt = None\<rparr>,
       \<lparr>dto_id = ''b'', dto_title = ''Bar'', dto_engineType = ''rpgmakermv'', dto_path = ''/games/Bar'',
       dto_pathValid = True, dto_runtimeVersion = None, dto_coverPath = None, dto_createdAt = 1,
       dto_lastPlayedAt = None\<rparr>],
     loading = False, error = None\<rparr>)"
proof -
  let ?g1 = "\<lparr>dto_id = ''a'', dto_title = ''Foo'', dto_engineType = ''rpgmakermv'', dto_path = ''/games/Foo'',
       dto_pathValid = True, dto_runtimeVersion = None, dto_coverPath = None, dto_createdAt = 1,
       dto_lastPlayedAt = None\<rparr>"
  let ?g2 = "\<lparr>dto_id = ''b'', dto_title = ''Bar'', dto_engineType = ''rpgmakermv'', dto_path = ''/games/Bar'',
       dto_pathValid = True, dto_runtimeVersion = None, dto_coverPath = None, dto_createdAt = 1,
       dto_lastPlayedAt = None\<rparr>"
  let ?g2n = "\<lparr>dto_id = ''b'', dto_title = ''Baz'', dto_engineType = ''rpgmakermv'', dto_path = ''/games/Bar'',
       dto_pathValid = True, dto_runtimeVersion = None, dto_coverPath = None, dto_createdAt = 1,
       dto_lastPlayedAt = None\<rparr>"
  let ?inp = "\<lparr>upd_title = Some ''Baz'', upd_engineType = None, upd_path = None, upd_runtimeVersion = None\<rparr>"
  let ?S = "\<lparr>store_games = [?g1, ?g2], loading = False, error = None\<rparr>"
  have ok: "fst (handleUpdateGame (\<lambda>i u. Resolved ?g2n) ''b'' ?inp ?S) \<and>
      store_games (snd (handleDeleteGame (\<lambda>i. Resolved ()) ''b'' ?S)) =
        filter (\<lambda>g. dto_id g \<noteq> ''b'') (store_games ?S)"
    using useGames_update_delete_frame
      [of "\<lambda>i u. Resolved ?g2n" "''b''" ?inp ?g2n ?S "\<lambda>i. Resolved ()" "()" "JString ''locked''"]
    by blast
  have ko: "\<not> fst (handleUpdateGame (\<lambda>i u. Rejected (JString ''locked'')) ''b'' ?inp ?S) \<and>
      \<not> fst (handleDeleteGame (\<lambda>i. Rejected (JString ''locked'')) ''b'' ?S)"
    using useGames_update_delete_frame
      [of "\<lambda>i u. Rejected (JString ''locked'')" "''b''" ?inp ?g2n ?S
          "\<lambda>i. Rejected (JString ''locked'')" "()" "JString ''locked''"]
    by blast
  from ok ko show ?thesis by simp
qed

section \<open>Engine types: the variants and the lookup of an unknown string\<close>

lemma EngineType_UNIV:
  "(UNIV :: EngineType set) =
     {RpgMakerVX, RpgMakerVXAce, RpgMakerMV, RpgMakerMZ, NWjs, RenPy, Other}"
proof -
  have "x \<in> {RpgMakerVX, RpgMakerVXAce, RpgMakerMV, RpgMakerMZ, NWjs, RenPy, Other}" for x
    by (cases x) simp_all
  then show ?thesis by blast
qed

lemma keys_ENGINE_ICONS: "map fst ENGINE_ICONS = map EngineType_value SUPPORTED_ENGINES"
  by (simp add: ENGINE_ICONS_def SUPPORTED_ENGINES_def del: EngineType_value.simps)

lemma keys_ENGINE_DISPLAY_NAMES:
  "map fst ENGINE_DISPLAY_NAMES =
     map EngineType_value [RpgMakerVX, RpgMakerVXAce, RpgMakerMV, RpgMakerMZ, NWjs, RenPy, Other]"
  by (simp add: ENGINE_DISPLAY_NAMES_def del: EngineType_value.simps)

lemma not_in_range_not_in_map: "s \<notin> range f \<Longrightarrow> s \<notin> set (map f xs)"
  by auto

lemma map_of_ENGINE_ICONS_unknown:
  "s \<notin> range EngineType_value \<Longrightarrow> map_of ENGINE_ICONS s = None"
proof -
  assume "s \<notin> range EngineType_value"
  then have "s \<notin> set (map fst ENGINE_ICONS)"
    unfolding keys_ENGINE_ICONS by (rule not_in_range_not_in_map)
  then show ?thesis by (simp add: map_of_eq_None_iff)
qed

lemma map_of_ENGINE_DISPLAY_NAMES_unknown:
  "s \<notin> range EngineType_value \<Longrightarrow> map_of ENGINE_DISPLAY_NAMES s = None"
proof -
  assume "s \<notin> range EngineType_value"
  then have "s \<notin> set (map fst ENGINE_DISPLAY_NAMES)"
    unfolding keys_ENGINE_DISPLAY_NAMES by (rule not_in_range_not_in_map)
  then show ?thesis by (simp add: map_of_eq_None_iff)
qed

lemma icon_of_Other:
  "get_property ENGINE_ICONS (EngineType_value Other) = Some (Text ''ri:question-line'')"
  by (simp add: get_property_def ENGINE_ICONS_def)

lemma unity_is_no_engine_type: "''unity'' \<notin> range EngineType_value"
proof
  assume "''unity'' \<in> range EngineType_value"
  then obtain e where "''unity'' = EngineType_value e" by auto
  then show False by (cases e) simp_all
qed

text \<open>
  Claim C6 as stated fails on the code: the enum has the member \<^verbatim>\<open>NWjs\<close>, which is not
  among the six variants of the claim, and the display name of an unknown string is
  the string itself, not the display name of \<^verbatim>\<open>Other\<close>.
\<close>

theorem engine_type_counterexample:
  "EngineType_value NWjs = ''nwjs'' \<and>
   NWjs \<notin> {RpgMakerVX, RpgMakerVXAce, RpgMakerMV, RpgMakerMZ, RenPy, Other} \<and>
   getEngineDisplayName ''unity'' = Some (Text ''unity'') \<and>
   getEngineDisplayName (EngineType_value Other) = Some (Text ''Other'') \<and>
   getEngineDisplayName ''unity'' \<noteq> getEngineDisplayName (EngineType_value Other)"
  by (simp add: getEngineDisplayName_def get_property_def ENGINE_DISPLAY_NAMES_def
      Object_prototype_keys_def)

text \<open>
  Claim C6, amended. The enum has exactly seven members, each with its own string
  value; \<^verbatim>\<open>SUPPORTED_ENGINES\<close> lists all of them but \<^verbatim>\<open>NWjs\<close>. For every string that is
  neither the value of a member nor a property name of \<^verbatim>\<open>Object.prototype\<close>, the icon
  lookup gives the icon of \<^verbatim>\<open>Other\<close> and the display-name lookup gives the string
  itself; neither fails.
\<close>

theorem engine_type_lookup:
  "(UNIV :: EngineType set) =
     {RpgMakerVX, RpgMakerVXAce, RpgMakerMV, RpgMakerMZ, NWjs, RenPy, Other} \<and>
   inj EngineType_value \<and>
   set SUPPORTED_ENGINES = UNIV - {NWjs} \<and>
   (\<forall>s. s \<notin> range EngineType_value \<and> s \<notin> set Object_prototype_keys \<longrightarrow>
      getEngineIcon s = Some (Text ''ri:question-line'') \<and>
      getEngineIcon s = getEngineIcon (EngineType_value Other) \<and>
      getEngineDisplayName s = Some (Text s))"
proof (intro conjI allI impI)
  show "(UNIV :: EngineType set) =
     {RpgMakerVX, RpgMakerVXAce, RpgMakerMV, RpgMakerMZ, NWjs, RenPy, Other}"
    by (rule EngineType_UNIV)
  show "inj EngineType_value"
  proof (rule injI)
    fix x y assume "EngineType_value x = EngineType_value y"
    then show "x = y" by (cases x; cases y) simp_all
  qed
  show "set SUPPORTED_ENGINES = UNIV - {NWjs}"
    unfolding EngineType_UNIV by (simp add: SUPPORTED_ENGINES_def insert_Diff_if)
next
  fix s assume s: "s \<notin> range EngineType_value \<and> s \<notin> set Object_prototype_keys"
  then have i: "get_property ENGINE_ICONS s = None"
    and n: "get_property ENGINE_DISPLAY_NAMES s = None"
    by (simp_all add: get_property_def map_of_ENGINE_ICONS_unknown
        map_of_ENGINE_DISPLAY_NAMES_unknown)
  show "getEngineIcon s = Some (Text ''ri:question-line'')"
    by (simp add: getEngineIcon_def i icon_of_Other del: EngineType_value.simps)
  show "getEngineIcon s = getEngineIcon (EngineType_value Other)"
    by (simp add: getEngineIcon_def i icon_of_Other del: EngineType_value.simps)
  show "getEngineDisplayName s = Some (Text s)"
    by (simp add: getEngineDisplayName_def n)
qed

theorem engine_type_lookup_witness:
  "getEngineIcon ''unity'' = Some (Text ''ri:question-line'') \<and>
   getEngineIcon ''unity'' = getEngineIcon (EngineType_value Other) \<and>
   getEngineDisplayName ''unity'' = Some (Text ''unity'')"
proof -
  have "''unity'' \<notin> set Object_prototype_keys"
    by (simp add: Object_prototype_keys_def)
  with unity_is_no_engine_type show ?thesis
    using engine_type_lookup by blast
qed

text \<open>What the lookups give on \<^verbatim>\<open>nwjs\<close> and on a name that every object inherits.\<close>

lemma getEngineIcon_nwjs:
  "getEngineIcon (EngineType_value NWjs) = Some (Text ''ri:question-line'') \<and>
   getEngineDisplayName (EngineType_value NWjs) = Some (Text ''NWjs'')"
  by (simp add: getEngineIcon_def getEngineDisplayName_def get_property_def ENGINE_ICONS_def
      ENGINE_DISPLAY_NAMES_def Object_prototype_keys_def)

lemma getEngineIcon_constructor:
  "getEngineIcon ''constructor'' = Some (Inherited ''constructor'')"
  by (simp add: getEngineIcon_def get_property_def ENGINE_ICONS_def Object_prototype_keys_def)

section \<open>The launch configuration at the command boundary\<close>

text \<open>
  The declared interface \<^verbatim>\<open>GameConfig\<close> has the members of the specification's
  LaunchConfig without the two of the compatibility layer.
\<close>

lemma GameConfig_interface_members:
  "GameConfig_interface =
     filter (\<lambda>m. fst m \<noteq> ''useCompatLayer'' \<and> fst m \<noteq> ''compatProfileName'') spec_LaunchConfig"
  by (simp add: GameConfig_interface_def spec_LaunchConfig_def)


text \<open>The flag and the profile name as the dialog sets them.\<close>

lemma settings_literal_bottles:
  "map_of (settings_literal f e a) ''useBottles'' = Some (CBoolean (usingBottles f)) \<and>
   (\<not> usingBottles f \<longrightarrow> map_of (settings_literal f e a) ''bottleName'' = Some CUndefined)"
  by (simp add: settings_literal_def)

section \<open>The Importer: a game imported and read back\<close>

lemma find_append_new:
  "i \<notin> f ` set xs \<Longrightarrow> f g = i \<Longrightarrow> find (\<lambda>x. f x = i) (xs @ [g]) = Some g"
  by (induction xs) auto

lemma length_le_foldr_max:
  "x \<in> set ids \<Longrightarrow> length x \<le> foldr (\<lambda>x m. max (length x) m) ids 0"
  by (induction ids) auto

lemma longer_id_new: "longer_id ids \<notin> set ids"
proof
  assume "longer_id ids \<in> set ids"
  from length_le_foldr_max [OF this] show False
    by (simp add: longer_id_def)
qed

lemma assign_id_new: "assign_id env reg \<notin> game_id ` set reg"
  using longer_id_new [of "map game_id reg"] by (simp add: assign_id_def)

lemma engine_kind_of_boundary_string: "engine_kind_of (boundary_string t) = t"
  by (cases t) (simp_all add: engine_kind_of_def all_engine_kinds_def)

text \<open>An unknown boundary string, and the one of the enum member \<^verbatim>\<open>NWjs\<close>, map to Other.\<close>

lemma engine_kind_of_unknown:
  "engine_kind_of ''unity'' = Kind_Other \<and> engine_kind_of (EngineType_value NWjs) = Kind_Other"
  by (simp add: engine_kind_of_def all_engine_kinds_def)

text \<open>
  The interface \<^verbatim>\<open>GameDto\<close>, by which the frontend types the Game it receives, declares
  no member \<^verbatim>\<open>profileKey\<close>. The declaration does not bound what the backend sends.
\<close>

lemma GameDto_declares_no_profileKey:
  "member_names GameDto_interface =
     [''id'', ''title'', ''engineType'', ''path'', ''pathValid'', ''runtimeVersion'',
      ''coverPath'', ''createdAt'', ''lastPlayedAt'']"
  by (simp add: member_names_def GameDto_interface_def)

text \<open>
  Claim C5. For every path \<open>p\<close>, every engine type \<open>t\<close> and every Registry, \<^verbatim>\<open>import(p, t)\<close>
  is refused with InvalidPath when \<open>p\<close> does not exist; when it exists, the import
  succeeds with a Game whose id no game of the Registry has, and \<^verbatim>\<open>getGame\<close> on that id
  then returns a Game with that id, the path \<open>p\<close>, the engine type \<open>t\<close> and a profileKey
  equal to its id: the Game that is returned carries the profileKey.
\<close>

theorem import_then_getGame:
  "(\<not> path_exists env p \<longrightarrow>
      import_game env p (Some (boundary_string t)) title_opt reg = Inl InvalidPath) \<and>
   (path_exists env p \<longrightarrow>
      (\<exists>g reg' r.
         import_game env p (Some (boundary_string t)) title_opt reg = Inr (g, reg') \<and>
         game_id g \<notin> game_id ` set reg \<and>
         getGame env (game_id g) reg' = Some r \<and>
         game_id r = game_id g \<and> game_path r = p \<and> game_engineType r = t \<and>
         game_profileKey r = game_id r \<and> game_pathValid r))"
proof (intro conjI impI)
  assume "\<not> path_exists env p"
  then show "import_game env p (Some (boundary_string t)) title_opt reg = Inl InvalidPath"
    by (simp add: import_game_def)
next
  assume ex: "path_exists env p"
  obtain g reg' where r: "register_game env title_opt p t reg = (g, reg')"
    by (cases "register_game env title_opt p t reg")
  then have g: "game_id g = assign_id env reg" "game_profileKey g = assign_id env reg"
    "game_path g = p" "game_engineType g = t" "reg' = reg @ [g]"
    by (auto simp: register_game_def Let_def)
  have new: "game_id g \<notin> game_id ` set reg"
    using assign_id_new [of env reg] g(1) by simp
  have f: "find (\<lambda>x. game_id x = game_id g) reg' = Some g"
    using find_append_new [of "game_id g" game_id reg g] new g(5) by simp
  have i: "import_game env p (Some (boundary_string t)) title_opt reg = Inr (g, reg')"
    using ex r by (simp add: import_game_def engine_kind_of_boundary_string)
  have "getGame env (game_id g) reg' = Some (read_game env g)"
    using f by (simp add: getGame_def)
  moreover have "game_id (read_game env g) = game_id g" "game_path (read_game env g) = p"
    "game_engineType (read_game env g) = t"
    "game_profileKey (read_game env g) = game_id (read_game env g)"
    "game_pathValid (read_game env g)"
    using g ex by (simp_all add: read_game_def)
  ultimately show "\<exists>g reg' r.
         import_game env p (Some (boundary_string t)) title_opt reg = Inr (g, reg') \<and>
         game_id g \<notin> game_id ` set reg \<and>
         getGame env (game_id g) reg' = Some r \<and>
         game_id r = game_id g \<and> game_path r = p \<and> game_engineType r = t \<and>
         game_profileKey r = game_id r \<and> game_pathValid r"
    using i new by blast
qed

text \<open>
  The Registry holds a game already, and the identifier proposed for the new game is
  the one of that game.
\<close>

theorem import_then_getGame_witness:
  "\<exists>g reg' r.
     import_game
       \<lparr>path_exists = (\<lambda>p. p = ''/games/Foo''), list_dir = (\<lambda>p. []), classify = (\<lambda>es. None),
        new_id = (\<lambda>reg. ''g1''), now = 0\<rparr>
       ''/games/Foo'' (Some ''rpgmakermv'') None
       [\<lparr>game_id = ''g1'', game_title = ''Old'', game_engineType = Kind_RenPy,
         game_path = ''/games/Old'', game_profileKey = ''g1'', game_runtimeVersion = None,
         game_coverImagePath = None, game_createdAt = 0, game_updatedAt = 0,
         game_lastPlayedAt = None\<rparr>] = Inr (g, reg') \<and>
     game_id g \<noteq> ''g1'' \<and>
     getGame
       \<lparr>path_exists = (\<lambda>p. p = ''/games/Foo''), list_dir = (\<lambda>p. []), classify = (\<lambda>es. None),
        new_id = (\<lambda>reg. ''g1''), now = 0\<rparr>
       (game_id g) reg' = Some r \<and>
     game_id r = game_id g \<and> game_path r = ''/games/Foo'' \<and>
     game_engineType r = Kind_RpgMakerMV \<and> game_profileKey r = game_id r"
  using import_then_getGame
    [of "\<lparr>path_exists = (\<lambda>p. p = ''/games/Foo''), list_dir = (\<lambda>p. []), classify = (\<lambda>es. None),
        new_id = (\<lambda>reg. ''g1''), now = 0\<rparr>"
        "''/games/Foo''" Kind_RpgMakerMV None
        "[\<lparr>game_id = ''g1'', game_title = ''Old'', game_engineType = Kind_RenPy,
         game_path = ''/games/Old'', game_profileKey = ''g1'', game_runtimeVersion = None,
         game_coverImagePath = None, game_createdAt = 0, game_updatedAt = 0,
         game_lastPlayedAt = None\<rparr>]"]
  by simp blast

text \<open>
  The same import, computed: the new game gets an identifier of its own and the old
  game is still found under \<^verbatim>\<open>g1\<close>.
\<close>

lemma import_game_colliding_proposal:
  "map game_id (snd (register_game
       \<lparr>path_exists = (\<lambda>p. p = ''/games/Foo''), list_dir = (\<lambda>p. []), classify = (\<lambda>es. None),
        new_id = (\<lambda>reg. ''g1''), now = 0\<rparr>
       None ''/games/Foo'' Kind_RpgMakerMV
       [\<lparr>game_id = ''g1'', game_title = ''Old'', game_engineType = Kind_RenPy,
         game_path = ''/games/Old'', game_profileKey = ''g1'', game_runtimeVersion = None,
         game_coverImagePath = None, game_createdAt = 0, game_updatedAt = 0,
         game_lastPlayedAt = None\<rparr>])) = [''g1'', ''ggg'']"
  by (simp add: register_game_def assign_id_def longer_id_def Let_def)

text \<open>An unknown engine type is stored as Other.\<close>

lemma import_game_unknown_engine_type:
  "path_exists env p \<Longrightarrow>
   import_game env p (Some ''unity'') title_opt reg = Inr (g, reg') \<Longrightarrow>
   game_engineType g = Kind_Other"
  using engine_kind_of_unknown by (auto simp: import_game_def register_game_def Let_def)

text \<open>A path that does not exist is refused and the Registry is not touched.\<close>

lemma import_game_invalid_path:
  "\<not> path_exists env p \<Longrightarrow> import_game env p t_opt title_opt reg = Inl InvalidPath"
  by (simp add: import_game_def)

section \<open>The Scanner: depth bound and idempotence\<close>

lemma visited_visit_dir: "visited (visit_dir env p k es st) = visited st @ [(p, k)]"
  by (simp add: visit_dir_def Let_def split: option.splits)

lemma registry_visit_dir_mono:
  "set (map game_path (registry st)) \<subseteq> set (map game_path (registry (visit_dir env p k es st)))"
  by (auto simp: visit_dir_def Let_def register_game_def split: option.splits)

lemma registry_visit_dir_found:
  "classify env es = Some t \<Longrightarrow> p \<in> set (map game_path (registry (visit_dir env p k es st)))"
  by (auto simp: visit_dir_def Let_def register_game_def)

lemma visit_dir_known:
  "(classify env es \<noteq> None \<longrightarrow> p \<in> set (map game_path (registry st))) \<Longrightarrow>
   registry (visit_dir env p k es st) = registry st \<and>
   imported (visit_dir env p k es st) = imported st"
  by (auto simp: visit_dir_def Let_def split: option.splits)

lemma visit_dir_counters:
  "imported st + skippedExisting st = foundGames st \<Longrightarrow>
   imported (visit_dir env p k es st) + skippedExisting (visit_dir env p k es st) =
     foundGames (visit_dir env p k es st)"
  by (auto simp: visit_dir_def Let_def split: option.splits)

lemma foundGames_visit_dir:
  "foundGames (visit_dir env p k es st) =
     foundGames st + length (case classify env es of None \<Rightarrow> [] | Some t \<Rightarrow> [p])"
  by (auto simp: visit_dir_def Let_def split: option.splits)

lemma scan_visited_depth:
  "k \<le> m \<Longrightarrow> (\<forall>x \<in> set (visited st). snd x \<le> m) \<Longrightarrow>
     (\<forall>x \<in> set (visited (scan_dir env m k p d st)). snd x \<le> m)"
  "k \<le> m \<Longrightarrow> (\<forall>x \<in> set (visited st). snd x \<le> m) \<Longrightarrow>
     (\<forall>x \<in> set (visited (scan_subdirs env m k p ds st)). snd x \<le> m)"
proof (induction env m k p d st and env m k p ds st rule: scan_dir_scan_subdirs.induct)
  case (1 env m k p n r fs ds st)
  let ?v = "visit_dir env p k (fs @ map dir_name ds) st"
  have v: "\<forall>x \<in> set (visited ?v). snd x \<le> m"
    using "1.prems" by (simp add: visited_visit_dir)
  show ?case
  proof (cases "r \<and> k < m")
    case True
    then have "Suc k \<le> m" by simp
    from "1.IH" [OF _ refl _ this v] True show ?thesis by (simp add: Let_def)
  next
    case False
    show ?thesis
    proof (cases r)
      case True
      with False v show ?thesis by (simp add: Let_def)
    next
      case False
      with "1.prems" show ?thesis by simp
    qed
  qed
next
  case (2 env m k p st)
  then show ?case by simp
next
  case (3 env m k p d ds st)
  have "\<forall>x \<in> set (visited (scan_dir env m k (p @ ''/'' @ dir_name d) d st)). snd x \<le> m"
    using "3.IH"(1) "3.prems" by blast
  from "3.IH"(2) [OF "3.prems"(1) this] show ?case by simp
qed

lemma scan_registry_mono:
  "set (map game_path (registry st)) \<subseteq> set (map game_path (registry (scan_dir env m k p d st)))"
  "set (map game_path (registry st)) \<subseteq> set (map game_path (registry (scan_subdirs env m k p ds st)))"
proof (induction env m k p d st and env m k p ds st rule: scan_dir_scan_subdirs.induct)
  case (1 env m k p n r fs ds st)
  show ?case
  proof (cases "r \<and> k < m")
    case True
    have "set (map game_path (registry st))
        \<subseteq> set (map game_path (registry (visit_dir env p k (fs @ map dir_name ds) st)))"
      by (rule registry_visit_dir_mono)
    also have "\<dots> \<subseteq> set (map game_path (registry
        (scan_subdirs env m (Suc k) p ds (visit_dir env p k (fs @ map dir_name ds) st))))"
      using "1.IH" [OF _ refl] True by simp
    finally show ?thesis using True by (simp add: Let_def)
  next
    case False
    have "set (map game_path (registry st))
        \<subseteq> set (map game_path (registry (visit_dir env p k (fs @ map dir_name ds) st)))"
      by (rule registry_visit_dir_mono)
    with False show ?thesis by (cases r) (simp_all add: Let_def)
  qed
next
  case (2 env m k p st)
  show ?case by simp
next
  case (3 env m k p d ds st)
  have "set (map game_path (registry st))
      \<subseteq> set (map game_path (registry (scan_dir env m k (p @ ''/'' @ dir_name d) d st)))"
    by (rule "3.IH"(1))
  also have "\<dots> \<subseteq> set (map game_path (registry
      (scan_subdirs env m k p ds (scan_dir env m k (p @ ''/'' @ dir_name d) d st))))"
    by (rule "3.IH"(2))
  finally show ?case by simp
qed

lemma scan_registers_found:
  "set (found_paths env m k p d) \<subseteq> set (map game_path (registry (scan_dir env m k p d st)))"
  "set (found_paths_subdirs env m k p ds) \<subseteq>
     set (map game_path (registry (scan_subdirs env m k p ds st)))"
proof (induction env m k p d st and env m k p ds st rule: scan_dir_scan_subdirs.induct)
  case (1 env m k p n r fs ds st)
  let ?v = "visit_dir env p k (fs @ map dir_name ds) st"
  show ?case
  proof (cases r)
    case False
    then show ?thesis by simp
  next
    case True
    have here: "set (case classify env (fs @ map dir_name ds) of None \<Rightarrow> [] | Some t \<Rightarrow> [p])
        \<subseteq> set (map game_path (registry ?v))"
    proof (cases "classify env (fs @ map dir_name ds)")
      case None
      then show ?thesis by simp
    next
      case (Some t)
      from registry_visit_dir_found [OF Some, of p k st] Some show ?thesis by simp
    qed
    show ?thesis
    proof (cases "k < m")
      case False
      with True here show ?thesis by (simp add: Let_def)
    next
      case lt: True
      have below: "set (found_paths_subdirs env m (Suc k) p ds)
          \<subseteq> set (map game_path (registry (scan_subdirs env m (Suc k) p ds ?v)))"
        using "1.IH" [OF _ refl] True lt by simp
      have "set (map game_path (registry ?v))
          \<subseteq> set (map game_path (registry (scan_subdirs env m (Suc k) p ds ?v)))"
        by (rule scan_registry_mono)
      with here below True lt show ?thesis by (auto simp: Let_def)
    qed
  qed
next
  case (2 env m k p st)
  show ?case by simp
next
  case (3 env m k p d ds st)
  let ?s = "scan_dir env m k (p @ ''/'' @ dir_name d) d st"
  have "set (map game_path (registry ?s))
      \<subseteq> set (map game_path (registry (scan_subdirs env m k p ds ?s)))"
    by (rule scan_registry_mono)
  moreover have "set (found_paths env m k (p @ ''/'' @ dir_name d) d)
      \<subseteq> set (map game_path (registry ?s))"
    by (rule "3.IH"(1))
  moreover have "set (found_paths_subdirs env m k p ds)
      \<subseteq> set (map game_path (registry (scan_subdirs env m k p ds ?s)))"
    by (rule "3.IH"(2))
  ultimately show ?case by auto
qed

lemma scan_known_imports_nothing:
  "set (found_paths env m k p d) \<subseteq> set (map game_path (registry st)) \<Longrightarrow>
     registry (scan_dir env m k p d st) = registry st \<and>
     imported (scan_dir env m k p d st) = imported st"
  "set (found_paths_subdirs env m k p ds) \<subseteq> set (map game_path (registry st)) \<Longrightarrow>
     registry (scan_subdirs env m k p ds st) = registry st \<and>
     imported (scan_subdirs env m k p ds st) = imported st"
proof (induction env m k p d st and env m k p ds st rule: scan_dir_scan_subdirs.induct)
  case (1 env m k p n r fs ds st)
  let ?v = "visit_dir env p k (fs @ map dir_name ds) st"
  show ?case
  proof (cases r)
    case False
    then show ?thesis by simp
  next
    case True
    have v: "registry ?v = registry st \<and> imported ?v = imported st"
      using "1.prems" True by (intro visit_dir_known) (auto split: option.splits)
    show ?thesis
    proof (cases "k < m")
      case False
      with True v show ?thesis by (simp add: Let_def)
    next
      case lt: True
      have "set (found_paths_subdirs env m (Suc k) p ds) \<subseteq> set (map game_path (registry ?v))"
        using "1.prems" True lt v by simp
      from "1.IH" [OF _ refl _ this] True lt v show ?thesis by (simp add: Let_def)
    qed
  qed
next
  case (2 env m k p st)
  show ?case by simp
next
  case (3 env m k p d ds st)
  let ?s = "scan_dir env m k (p @ ''/'' @ dir_name d) d st"
  have a: "registry ?s = registry st \<and> imported ?s = imported st"
    using "3.IH"(1) "3.prems" by simp
  then have "set (found_paths_subdirs env m k p ds) \<subseteq> set (map game_path (registry ?s))"
    using "3.prems" by simp
  from "3.IH"(2) [OF this] a show ?case by simp
qed

lemma scan_counters:
  "imported st + skippedExisting st = foundGames st \<Longrightarrow>
     imported (scan_dir env m k p d st) + skippedExisting (scan_dir env m k p d st) =
       foundGames (scan_dir env m k p d st)"
  "imported st + skippedExisting st = foundGames st \<Longrightarrow>
     imported (scan_subdirs env m k p ds st) + skippedExisting (scan_subdirs env m k p ds st) =
       foundGames (scan_subdirs env m k p ds st)"
proof (induction env m k p d st and env m k p ds st rule: scan_dir_scan_subdirs.induct)
  case (1 env m k p n r fs ds st)
  let ?v = "visit_dir env p k (fs @ map dir_name ds) st"
  have v: "imported ?v + skippedExisting ?v = foundGames ?v"
    using "1.prems" by (rule visit_dir_counters)
  show ?case
  proof (cases "r \<and> k < m")
    case True
    with "1.IH" [OF _ refl _ v] show ?thesis by (simp add: Let_def)
  next
    case False
    with v "1.prems" show ?thesis by (auto simp: Let_def)
  qed
next
  case (2 env m k p st)
  then show ?case by simp
next
  case (3 env m k p d ds st)
  from "3.IH"(2) [OF "3.IH"(1) [OF "3.prems"]] show ?case by simp
qed

lemma scan_foundGames:
  "foundGames (scan_dir env m k p d st) = foundGames st + length (found_paths env m k p d)"
  "foundGames (scan_subdirs env m k p ds st) =
     foundGames st + length (found_paths_subdirs env m k p ds)"
proof (induction env m k p d st and env m k p ds st rule: scan_dir_scan_subdirs.induct)
  case (1 env m k p n r fs ds st)
  show ?case
  proof (cases "r \<and> k < m")
    case True
    then show ?thesis
      by (simp add: Let_def foundGames_visit_dir "1.IH" [OF _ refl])
  next
    case False
    then show ?thesis by (auto simp: Let_def foundGames_visit_dir)
  qed
next
  case (2 env m k p st)
  show ?case by simp
next
  case (3 env m k p d ds st)
  have "foundGames (scan_subdirs env m k p ds (scan_dir env m k (p @ ''/'' @ dir_name d) d st))
      = foundGames (scan_dir env m k (p @ ''/'' @ dir_name d) d st)
        + length (found_paths_subdirs env m k p ds)"
    by (rule "3.IH"(2))
  also have "foundGames (scan_dir env m k (p @ ''/'' @ dir_name d) d st)
      = foundGames st + length (found_paths env m k (p @ ''/'' @ dir_name d) d)"
    by (rule "3.IH"(1))
  finally show ?case by simp
qed

text \<open>
  Claim C4. A scan of the tree \<open>T\<close> with the maximal depth \<open>d\<close> visits no directory
  deeper than \<open>d\<close> below the root. A second scan of the same tree, from the Registry
  that the first one left, imports nothing: it finds as many games as the first, and
  counts each of them in \<^verbatim>\<open>skippedExisting\<close>.
\<close>

theorem scan_bounded_and_idempotent:
  "(\<forall>(q, j) \<in> set (visited (scan env root T d reg)). j \<le> d) \<and>
   imported (scan env root T d (registry (scan env root T d reg))) = 0 \<and>
   foundGames (scan env root T d (registry (scan env root T d reg))) =
     foundGames (scan env root T d reg) \<and>
   skippedExisting (scan env root T d (registry (scan env root T d reg))) =
     foundGames (scan env root T d reg) \<and>
   registry (scan env root T d (registry (scan env root T d reg))) =
     registry (scan env root T d reg)"
proof -
  let ?init = "\<lambda>r. \<lparr>scannedDirs = 0, foundGames = 0, imported = 0, skippedExisting = 0,
        registry = r, visited = []\<rparr>"
  let ?reg1 = "registry (scan env root T d reg)"
  have "\<forall>x \<in> set (visited (scan env root T d reg)). snd x \<le> d"
    unfolding scan_def by (rule scan_visited_depth(1)) simp_all
  then have depth: "\<forall>(q, j) \<in> set (visited (scan env root T d reg)). j \<le> d"
    by (simp add: case_prod_unfold)
  have "set (found_paths env d 0 root T) \<subseteq> set (map game_path ?reg1)"
    unfolding scan_def by (rule scan_registers_found(1))
  then have "set (found_paths env d 0 root T) \<subseteq> set (map game_path (registry (?init ?reg1)))"
    by simp
  from scan_known_imports_nothing(1) [OF this]
  have second: "registry (scan env root T d ?reg1) = ?reg1"
    "imported (scan env root T d ?reg1) = 0"
    by (simp_all add: scan_def)
  have found: "foundGames (scan env root T d r) = length (found_paths env d 0 root T)" for r
    by (simp add: scan_def scan_foundGames)
  have "imported (scan env root T d ?reg1) + skippedExisting (scan env root T d ?reg1) =
      foundGames (scan env root T d ?reg1)"
    unfolding scan_def by (rule scan_counters(1)) simp
  with second found have skipped:
    "skippedExisting (scan env root T d ?reg1) = foundGames (scan env root T d reg)"
    by simp
  from depth second found skipped show ?thesis by simp
qed
theorem scan_bounded_and_idempotent_witness:
  "visited (scan
      \<lparr>path_exists = (\<lambda>p. True), list_dir = (\<lambda>p. []),
       classify = (\<lambda>es. if ''package.json'' \<in> set es then Some Kind_RpgMakerMV else None),
       new_id = (\<lambda>reg. replicate (Suc (length reg)) CHR ''g''), now = 0\<rparr>
      ''/games''
      (Dir ''games'' True []
        [Dir ''Foo'' True [''package.json'']
           [Dir ''www'' True [] [Dir ''deep'' True [''package.json''] []]],
         Dir ''locked'' False [''package.json''] []])
      1 []) = [(''/games'', 0), (''/games/Foo'', 1)] \<and>
   imported (scan
      \<lparr>path_exists = (\<lambda>p. True), list_dir = (\<lambda>p. []),
       classify = (\<lambda>es. if ''package.json'' \<in> set es then Some Kind_RpgMakerMV else None),
       new_id = (\<lambda>reg. replicate (Suc (length reg)) CHR ''g''), now = 0\<rparr>
      ''/games''
      (Dir ''games'' True []
        [Dir ''Foo'' True [''package.json'']
           [Dir ''www'' True [] [Dir ''deep'' True [''package.json''] []]],
         Dir ''locked'' False [''package.json''] []])
      1 []) = 1 \<and>
   imported (scan
      \<lparr>path_exists = (\<lambda>p. True), list_dir = (\<lambda>p. []),
       classify = (\<lambda>es. if ''package.json'' \<in> set es then Some Kind_RpgMakerMV else None),
       new_id = (\<lambda>reg. replicate (Suc (length reg)) CHR ''g''), now = 0\<rparr>
      ''/games''
      (Dir ''games'' True []
        [Dir ''Foo'' True [''package.json'']
           [Dir ''www'' True [] [Dir ''deep'' True [''package.json''] []]],
         Dir ''locked'' False [''package.json''] []])
      1
      (registry (scan
        \<lparr>path_exists = (\<lambda>p. True), list_dir = (\<lambda>p. []),
         classify = (\<lambda>es. if ''package.json'' \<in> set es then Some Kind_RpgMakerMV else None),
         new_id = (\<lambda>reg. replicate (Suc (length reg)) CHR ''g''), now = 0\<rparr>
        ''/games''
        (Dir ''games'' True []
          [Dir ''Foo'' True [''package.json'']
             [Dir ''www'' True [] [Dir ''deep'' True [''package.json''] []]],
           Dir ''locked'' False [''package.json''] []])
        1 []))) = 0"
proof -
  let ?env = "\<lparr>path_exists = (\<lambda>p. True), list_dir = (\<lambda>p. []),
       classify = (\<lambda>es. if ''package.json'' \<in> set es then Some Kind_RpgMakerMV else None),
       new_id = (\<lambda>reg. replicate (Suc (length reg)) CHR ''g''), now = 0\<rparr>"
  let ?T = "Dir ''games'' True []
        [Dir ''Foo'' True [''package.json'']
           [Dir ''www'' True [] [Dir ''deep'' True [''package.json''] []]],
         Dir ''locked'' False [''package.json''] []]"
  have first: "visited (scan ?env ''/games'' ?T 1 []) = [(''/games'', 0), (''/games/Foo'', 1)]"
    "imported (scan ?env ''/games'' ?T 1 []) = 1"
    by (simp_all add: scan_def visit_dir_def register_game_def Let_def)
  have "imported (scan ?env ''/games'' ?T 1 (registry (scan ?env ''/games'' ?T 1 []))) = 0"
    using scan_bounded_and_idempotent [of ?env "''/games''" ?T 1 "[]"] by blast
  with first show ?thesis by simp
qed

section \<open>Runtime Acquisition: an install that fails leaves no trace\<close>

lemma install_invariant_start: "install_invariant env family flavor w (start_task w)"
  by (simp add: install_invariant_def start_task_def)

lemma install_invariant_step:
  "install_invariant env family flavor w t \<Longrightarrow>
   install_invariant env family flavor w (install_step env family flavor t)"
  by (cases "task_state t")
     (auto simp: install_invariant_def install_step_def Let_def split: option.splits prod.splits)

lemma install_invariant_steps:
  "install_invariant env family flavor w ((install_step env family flavor ^^ n) (start_task w))"
  by (induction n) (simp_all add: install_invariant_start install_invariant_step)

lemma steps_left_step:
  "steps_left (install_step env family flavor t) \<le> steps_left t - 1"
  by (cases "task_state t")
     (auto simp: steps_left_def install_step_def Let_def split: option.splits prod.splits task_state.splits)

lemma steps_left_steps:
  "steps_left ((install_step env family flavor ^^ n) (start_task w)) \<le> 5 - n"
proof (induction n)
  case 0
  show ?case by (simp add: steps_left_def start_task_def)
next
  case (Suc n)
  have "steps_left ((install_step env family flavor ^^ Suc n) (start_task w))
      \<le> steps_left ((install_step env family flavor ^^ n) (start_task w)) - 1"
    using steps_left_step [of env family flavor "(install_step env family flavor ^^ n) (start_task w)"]
    by simp
  with Suc show ?case by simp
qed

lemma steps_left_0: "steps_left t = 0 \<Longrightarrow> task_state t = Installed \<or> task_state t = Failed"
  by (cases "task_state t") (auto simp: steps_left_def split: if_splits)

text \<open>
  Claim C3. In every state that a task of \<open>downloadAndInstall\<close> reaches before the final
  move, whatever the family, the flavor and the behaviour of the outside, the Engine
  rows and the install directories are those of the start: a crash or a failure there
  leaves both untouched. The task ends within five steps, in Failed or in Installed.
  When it ends in Failed the final move has not happened, so nothing of the install is
  visible; when it ends in Installed the install directory holds an artifact that
  passed the check of completeness, and one Engine row has been added.
\<close>

theorem downloadAndInstall_atomic:
  "(\<forall>n. \<not> task_moved ((install_step env family flavor ^^ n) (start_task w)) \<longrightarrow>
        engines (task_world ((install_step env family flavor ^^ n) (start_task w))) = engines w \<and>
        install_dirs (task_world ((install_step env family flavor ^^ n) (start_task w)))
          = install_dirs w) \<and>
   (task_state (downloadAndInstall env family flavor w) = Failed \<or>
    task_state (downloadAndInstall env family flavor w) = Installed) \<and>
   (task_state (downloadAndInstall env family flavor w) = Failed \<longrightarrow>
      \<not> task_moved (downloadAndInstall env family flavor w) \<and>
      engines (task_world (downloadAndInstall env family flavor w)) = engines w \<and>
      install_dirs (task_world (downloadAndInstall env family flavor w)) = install_dirs w) \<and>
   (task_state (downloadAndInstall env family flavor w) = Installed \<longrightarrow>
      (\<exists>bytes v. complete env bytes \<and>
         install_dirs (task_world (downloadAndInstall env family flavor w)) =
           (install_path env v flavor, bytes) # install_dirs w \<and>
         engines (task_world (downloadAndInstall env family flavor w)) =
           engines w @ [engine_row env family flavor v (engines w)]))"
proof (intro conjI allI impI)
  fix n
  assume "\<not> task_moved ((install_step env family flavor ^^ n) (start_task w))"
  with install_invariant_steps [where n = n and env = env and family = family and flavor = flavor and w = w]
  show "engines (task_world ((install_step env family flavor ^^ n) (start_task w))) = engines w"
    and "install_dirs (task_world ((install_step env family flavor ^^ n) (start_task w)))
          = install_dirs w"
    by (simp_all add: install_invariant_def)
next
  have "steps_left (downloadAndInstall env family flavor w) = 0"
    using steps_left_steps [where n = 5 and env = env and family = family and flavor = flavor and w = w] by (simp add: downloadAndInstall_def)
  from steps_left_0 [OF this]
  show "task_state (downloadAndInstall env family flavor w) = Failed \<or>
    task_state (downloadAndInstall env family flavor w) = Installed"
    by blast
next
  assume f: "task_state (downloadAndInstall env family flavor w) = Failed"
  have i: "install_invariant env family flavor w (downloadAndInstall env family flavor w)"
    unfolding downloadAndInstall_def by (rule install_invariant_steps)
  from i f show m: "\<not> task_moved (downloadAndInstall env family flavor w)"
    by (auto simp: install_invariant_def)
  from i m show "engines (task_world (downloadAndInstall env family flavor w)) = engines w"
    and "install_dirs (task_world (downloadAndInstall env family flavor w)) = install_dirs w"
    by (simp_all add: install_invariant_def)
next
  assume f: "task_state (downloadAndInstall env family flavor w) = Installed"
  have i: "install_invariant env family flavor w (downloadAndInstall env family flavor w)"
    unfolding downloadAndInstall_def by (rule install_invariant_steps)
  from i f show "\<exists>bytes v. complete env bytes \<and>
         install_dirs (task_world (downloadAndInstall env family flavor w)) =
           (install_path env v flavor, bytes) # install_dirs w \<and>
         engines (task_world (downloadAndInstall env family flavor w)) =
           engines w @ [engine_row env family flavor v (engines w)]"
    unfolding install_invariant_def by blast
qed

theorem downloadAndInstall_atomic_witness:
  "task_state (downloadAndInstall
      \<lparr>resolveStable = (\<lambda>f. Some (''0.90.0'', ''linux-x64'')),
       fetch = (\<lambda>t f. (''PK-part'', False)), complete = (\<lambda>b. b = ''PK-full''),
       move_succeeds = True, temp_path = (\<lambda>v f. ''/tmp/nwjs''),
       install_path = (\<lambda>v f. ''/engines/nwjs''), new_engine_id = (\<lambda>es. ''e1''),
       install_time = 0\<rparr>
      ''nwjs'' ''normal''
      \<lparr>engines = [], install_dirs = [(''/engines/old'', ''PK-old'')], temp_files = []\<rparr>) = Failed \<and>
   engines (task_world (downloadAndInstall
      \<lparr>resolveStable = (\<lambda>f. Some (''0.90.0'', ''linux-x64'')),
       fetch = (\<lambda>t f. (''PK-part'', False)), complete = (\<lambda>b. b = ''PK-full''),
       move_succeeds = True, temp_path = (\<lambda>v f. ''/tmp/nwjs''),
       install_path = (\<lambda>v f. ''/engines/nwjs''), new_engine_id = (\<lambda>es. ''e1''),
       install_time = 0\<rparr>
      ''nwjs'' ''normal''
      \<lparr>engines = [], install_dirs = [(''/engines/old'', ''PK-old'')], temp_files = []\<rparr>)) = [] \<and>
   install_dirs (task_world (downloadAndInstall
      \<lparr>resolveStable = (\<lambda>f. Some (''0.90.0'', ''linux-x64'')),
       fetch = (\<lambda>t f. (''PK-part'', False)), complete = (\<lambda>b. b = ''PK-full''),
       move_succeeds = True, temp_path = (\<lambda>v f. ''/tmp/nwjs''),
       install_path = (\<lambda>v f. ''/engines/nwjs''), new_engine_id = (\<lambda>es. ''e1''),
       install_time = 0\<rparr>
      ''nwjs'' ''normal''
      \<lparr>engines = [], install_dirs = [(''/engines/old'', ''PK-old'')], temp_files = []\<rparr>))
     = [(''/engines/old'', ''PK-old'')]"
proof -
  let ?env = "\<lparr>resolveStable = (\<lambda>f. Some (''0.90.0'', ''linux-x64'')),
       fetch = (\<lambda>t f. (''PK-part'', False)), complete = (\<lambda>b. b = ''PK-full''),
       move_succeeds = True, temp_path = (\<lambda>v f. ''/tmp/nwjs''),
       install_path = (\<lambda>v f. ''/engines/nwjs''), new_engine_id = (\<lambda>es. ''e1''),
       install_time = 0\<rparr>"
  let ?w = "\<lparr>engines = [], install_dirs = [(''/engines/old'', ''PK-old'')], temp_files = []\<rparr>"
  have failed: "task_state (downloadAndInstall ?env ''nwjs'' ''normal'' ?w) = Failed"
    by (simp add: downloadAndInstall_def start_task_def install_step_def Let_def
        eval_nat_numeral)
  with downloadAndInstall_atomic [of ?env "''nwjs''" "''normal''" ?w]
  have "engines (task_world (downloadAndInstall ?env ''nwjs'' ''normal'' ?w)) = engines ?w \<and>
      install_dirs (task_world (downloadAndInstall ?env ''nwjs'' ''normal'' ?w)) = install_dirs ?w"
    by blast
  with failed show ?thesis by simp
qed

text \<open>The same install when the download runs to its end and the artifact is complete.\<close>

lemma downloadAndInstall_success:
  "task_state (downloadAndInstall
      \<lparr>resolveStable = (\<lambda>f. Some (''0.90.0'', ''linux-x64'')),
       fetch = (\<lambda>t f. (''PK-full'', True)), complete = (\<lambda>b. b = ''PK-full''),
       move_succeeds = True, temp_path = (\<lambda>v f. ''/tmp/nwjs''),
       install_path = (\<lambda>v f. ''/engines/nwjs''), new_engine_id = (\<lambda>es. ''e1''),
       install_time = 0\<rparr>
      ''nwjs'' ''normal''
      \<lparr>engines = [], install_dirs = [], temp_files = []\<rparr>) = Installed \<and>
   install_dirs (task_world (downloadAndInstall
      \<lparr>resolveStable = (\<lambda>f. Some (''0.90.0'', ''linux-x64'')),
       fetch = (\<lambda>t f. (''PK-full'', True)), complete = (\<lambda>b. b = ''PK-full''),
       move_succeeds = True, temp_path = (\<lambda>v f. ''/tmp/nwjs''),
       install_path = (\<lambda>v f. ''/engines/nwjs''), new_engine_id = (\<lambda>es. ''e1''),
       install_time = 0\<rparr>
      ''nwjs'' ''normal''
      \<lparr>engines = [], install_dirs = [], temp_files = []\<rparr>)) = [(''/engines/nwjs'', ''PK-full'')]"
  by (simp add: downloadAndInstall_def start_task_def install_step_def Let_def eval_nat_numeral)

end
